theory Spec2Isabelle
  imports Main "HOL-Library.Sublist"
begin

section \<open>Python strings\<close>

text \<open>
  A Python \<open>str\<close> is a sequence of Unicode code points, so it is modelled as a list of
  integers (what \<open>ord\<close> gives for each character). ASCII text is written with
  \<open>asc\<close>; Korean text is written as its code points, with the meaning of the source
  literal given beside it.
\<close>

type_synonym pystr = "int list"

definition asc :: "string \<Rightarrow> pystr" where
  "asc s = map of_char s"

text \<open>\<open>s.split(c)\<close> for a one-character separator: every occurrence splits.\<close>

fun split_on :: "int \<Rightarrow> pystr \<Rightarrow> pystr list" where
  "split_on c [] = [[]]"
| "split_on c (x # xs) =
     (if x = c then [] # split_on c xs
      else (case split_on c xs of p # ps \<Rightarrow> (x # p) # ps | [] \<Rightarrow> [[x]]))"

text \<open>\<open>s.replace(c, "")\<close> for a one-character \<open>c\<close>.\<close>

definition replace_del :: "int \<Rightarrow> pystr \<Rightarrow> pystr" where
  "replace_del c s = filter (\<lambda>x. x \<noteq> c) s"

text \<open>\<open>str(n)\<close> for a non-negative integer (the result of \<open>len\<close>).\<close>

function str_nat :: "nat \<Rightarrow> pystr" where
  "str_nat n = (if n < 10 then [48 + int n] else str_nat (n div 10) @ [48 + int (n mod 10)])"
  by pat_completeness auto
termination
  by (relation "measure id") auto

declare str_nat.simps [simp del]

section \<open>Exceptions, log records and the query trace\<close>

text \<open>
  An exception raised by the code or by a library it calls is an instance of Python's
  \<open>Exception\<close>; \<open>Exception m\<close> carries the text \<open>str(e)\<close>. A computation returns either the
  raised exception or its value, together with the events it produced, in order: the
  records written through \<open>logging\<close> and the SQL texts handed to the engine.
\<close>

datatype exn = Exception pystr

fun str_exn :: "exn \<Rightarrow> pystr" where
  "str_exn (Exception m) = m"

datatype event = LogInfo pystr | LogWarning pystr | LogError pystr | Sql pystr

type_synonym 'a run = "(exn + 'a) \<times> event list"

definition ret :: "'a \<Rightarrow> 'a run" where
  "ret x = (Inr x, [])"

definition raise :: "exn \<Rightarrow> 'a run" where
  "raise e = (Inl e, [])"

definition emit :: "event \<Rightarrow> unit run" where
  "emit ev = (Inr (), [ev])"

definition bind :: "'a run \<Rightarrow> ('a \<Rightarrow> 'b run) \<Rightarrow> 'b run" where
  "bind m f =
     (case m of
        (Inl e, t) \<Rightarrow> (Inl e, t)
      | (Inr x, t) \<Rightarrow> (case f x of (r, t') \<Rightarrow> (r, t @ t')))"

text \<open>\<open>try: m except Exception as e: h e\<close>.\<close>

definition try_except :: "'a run \<Rightarrow> (exn \<Rightarrow> 'a run) \<Rightarrow> 'a run" where
  "try_except m h =
     (case m of
        (Inl e, t) \<Rightarrow> (case h e of (r, t') \<Rightarrow> (r, t @ t'))
      | (Inr x, t) \<Rightarrow> (Inr x, t))"

definition queries :: "event list \<Rightarrow> pystr list" where
  "queries t = concat (map (\<lambda>ev. case ev of Sql q \<Rightarrow> [q] | _ \<Rightarrow> []) t)"

definition warnings :: "event list \<Rightarrow> pystr list" where
  "warnings t = concat (map (\<lambda>ev. case ev of LogWarning m \<Rightarrow> [m] | _ \<Rightarrow> []) t)"

text \<open>\<open>a, b = xs\<close>: unpacking into two names raises \<open>ValueError\<close> unless \<open>xs\<close> has two items.\<close>

definition unpack2 :: "pystr list \<Rightarrow> (pystr \<times> pystr) run" where
  "unpack2 xs =
     (case xs of
        [a, b] \<Rightarrow> ret (a, b)
      | [] \<Rightarrow> raise (Exception (asc ''not enough values to unpack (expected 2, got 0)''))
      | [a] \<Rightarrow> raise (Exception (asc ''not enough values to unpack (expected 2, got 1)''))
      | _ \<Rightarrow> raise (Exception (asc ''too many values to unpack (expected 2)'')))"

text \<open>\<open>xs[1]\<close>: raises \<open>IndexError\<close> when there is no second item.\<close>

definition index1 :: "pystr list \<Rightarrow> pystr run" where
  "index1 xs =
     (case xs of
        a # b # _ \<Rightarrow> ret b
      | _ \<Rightarrow> raise (Exception (asc ''list index out of range'')))"

section \<open>The field catalog\<close>

text \<open>The semantic types: \<open>'categorical'\<close>, \<open>'numeric'\<close>, \<open>'temporal'\<close> and \<open>'unknown'\<close>.\<close>

abbreviation TYPE_CATEGORICAL :: pystr where
  "TYPE_CATEGORICAL \<equiv> [0xBC94, 0xC8FC, 0xD615]"

abbreviation TYPE_NUMERIC :: pystr where
  "TYPE_NUMERIC \<equiv> [0xC218, 0xCE58, 0xD615]"

abbreviation TYPE_TEMPORAL :: pystr where
  "TYPE_TEMPORAL \<equiv> [0xC2DC, 0xAC04, 0xD615]"

abbreviation TYPE_UNKNOWN :: pystr where
  "TYPE_UNKNOWN \<equiv> [0xC54C, 0x20, 0xC218, 0x20, 0xC5C6, 0xC74C]"

text \<open>The label \<open>'accident count'\<close> and the column part of its pseudo-field.\<close>

abbreviation ACCIDENT_COUNT :: pystr where
  "ACCIDENT_COUNT \<equiv> [0xC0AC, 0xACE0, 0xAC74, 0xC218]"

abbreviation ACCIDENT_COUNT_COL :: pystr where
  "ACCIDENT_COUNT_COL \<equiv> [0x28, 0xC0AC, 0xACE0, 0xAC74, 0xC218, 0x29]"

record col_info =
  col_type :: pystr
  col_label :: pystr

text \<open>
  \<open>COLUMN_CONFIG\<close>, in the order of the source: twelve categorical fields, five numeric
  fields (the last one the accident-count pseudo-field) and one temporal field.
\<close>

definition COLUMN_CONFIG :: "(pystr \<times> col_info) list" where
  "COLUMN_CONFIG = [
    (asc ''ACCIDENT.DayNight'',
      \<lparr>col_type = TYPE_CATEGORICAL, col_label = [0xC8FC, 0xC57C]\<rparr>),
    (asc ''ACCIDENT.AccidentType'',
      \<lparr>col_type = TYPE_CATEGORICAL, col_label = [0xC0AC, 0xACE0, 0xC720, 0xD615]\<rparr>),
    (asc ''ACCIDENT.LawViolationYn'',
      \<lparr>col_type = TYPE_CATEGORICAL, col_label = [0xBC95, 0xADDC, 0xC704, 0xBC18, 0x20, 0xC5EC, 0xBD80]\<rparr>),
    (asc ''ACCIDENT.RoadSurfaceState'',
      \<lparr>col_type = TYPE_CATEGORICAL, col_label = [0xB178, 0xBA74, 0xC0C1, 0xD0DC]\<rparr>),
    (asc ''ACCIDENT.WeatherState'',
      \<lparr>col_type = TYPE_CATEGORICAL, col_label = [0xAE30, 0xC0C1, 0xC0C1, 0xD0DC]\<rparr>),
    (asc ''ACCIDENT.RoadForm'',
      \<lparr>col_type = TYPE_CATEGORICAL, col_label = [0xB3C4, 0xB85C, 0xD615, 0xD0DC]\<rparr>),
    (asc ''REGION.RegionName'',
      \<lparr>col_type = TYPE_CATEGORICAL, col_label = [0xC9C0, 0xC5ED, 0xBA85, 0x20, 0x28, 0xC2DC, 0xAD70, 0xAD6C, 0x29]\<rparr>),
    (asc ''DRIVER.Role'',
      \<lparr>col_type = TYPE_CATEGORICAL, col_label = [0xC6B4, 0xC804, 0xC790, 0x20, 0xAD6C, 0xBD84, 0x20, 0x28, 0xAC00, 0xD574, 0x2F, 0xD53C, 0xD574, 0x29]\<rparr>),
    (asc ''DRIVER.VehicleType'',
      \<lparr>col_type = TYPE_CATEGORICAL, col_label = [0xC6B4, 0xC804, 0xC790, 0x20, 0xCC28, 0xC885]\<rparr>),
    (asc ''DRIVER.Gender'',
      \<lparr>col_type = TYPE_CATEGORICAL, col_label = [0xC6B4, 0xC804, 0xC790, 0x20, 0xC131, 0xBCC4]\<rparr>),
    (asc ''DRIVER.AgeGroup'',
      \<lparr>col_type = TYPE_CATEGORICAL, col_label = [0xC6B4, 0xC804, 0xC790, 0x20, 0xC5F0, 0xB839, 0xB300]\<rparr>),
    (asc ''DRIVER.InjuryLevel'',
      \<lparr>col_type = TYPE_CATEGORICAL, col_label = [0xC6B4, 0xC804, 0xC790, 0x20, 0xC0C1, 0xD574, 0xC815, 0xB3C4]\<rparr>),
    (asc ''ACCIDENT.DeathCount'',
      \<lparr>col_type = TYPE_NUMERIC, col_label = [0xC0AC, 0xB9DD, 0xC790, 0xC218]\<rparr>),
    (asc ''ACCIDENT.SevereInjuryCount'',
      \<lparr>col_type = TYPE_NUMERIC, col_label = [0xC911, 0xC0C1, 0xC790, 0xC218]\<rparr>),
    (asc ''ACCIDENT.MinorInjuryCount'',
      \<lparr>col_type = TYPE_NUMERIC, col_label = [0xACBD, 0xC0C1, 0xC790, 0xC218]\<rparr>),
    (asc ''ACCIDENT.ReportedInjuryCount'',
      \<lparr>col_type = TYPE_NUMERIC, col_label = [0xBD80, 0xC0C1, 0xC2E0, 0xACE0, 0xC790, 0xC218]\<rparr>),
    (asc ''ACCIDENT.'' @ ACCIDENT_COUNT_COL,
      \<lparr>col_type = TYPE_NUMERIC, col_label = ACCIDENT_COUNT\<rparr>),
    (asc ''ACCIDENT.OccurYearMonth'',
      \<lparr>col_type = TYPE_TEMPORAL, col_label = [0xBC1C, 0xC0DD, 0xB144, 0xC6D4]\<rparr>)]"

text \<open>
  A dict built from a sequence of key/value pairs keeps, for a repeated key, the last value:
  lookup goes through the pairs from the end.
\<close>

definition dict_get :: "('k \<times> 'v) list \<Rightarrow> 'k \<Rightarrow> 'v option" where
  "dict_get d k = map_of (rev d) k"

text \<open>\<open>{v['label']: k for k, v in self.COLUMN_CONFIG.items()}\<close>\<close>

definition LABEL_TO_INTERNAL :: "(pystr \<times> pystr) list" where
  "LABEL_TO_INTERNAL = map (\<lambda>(k, v). (col_label v, k)) COLUMN_CONFIG"

definition get_internal_name :: "pystr \<Rightarrow> pystr option" where
  "get_internal_name label = dict_get LABEL_TO_INTERNAL label"

definition get_column_type :: "pystr \<Rightarrow> pystr" where
  "get_column_type internal_name =
     (case dict_get COLUMN_CONFIG internal_name of
        Some v \<Rightarrow> col_type v
      | None \<Rightarrow> TYPE_UNKNOWN)"

section \<open>Data frames, figures and the environment\<close>

text \<open>
  A cell of a fetched frame: text, an integer, SQL \<open>NULL\<close>, or (after conversion) the
  timestamp of the first day of a month, given as year and month.
\<close>

datatype cell = CStr pystr | CInt int | CNull | CTimestamp int int

record dataframe =
  columns :: "pystr list"
  rows :: "cell list list"

text \<open>\<open>df.empty\<close>: some axis has length zero.\<close>

definition df_empty :: "dataframe \<Rightarrow> bool" where
  "df_empty df \<longleftrightarrow> columns df = [] \<or> rows df = []"

text \<open>
  A figure is what the code asks of \<open>plotly.express\<close>: the function called, the frame and
  the keyword arguments, and the axis updates applied afterwards.
\<close>

datatype px_kind = PxBar | PxLine | PxScatter

record figure =
  fig_kind :: px_kind
  fig_data :: dataframe
  fig_x :: pystr
  fig_y :: pystr
  fig_color :: "pystr option"
  fig_size :: "pystr option"
  fig_barmode :: "pystr option"
  fig_markers :: bool
  fig_hover_data :: "(pystr \<times> bool) list"
  fig_size_max :: "nat option"
  fig_title :: pystr
  fig_labels :: "(pystr \<times> pystr) list"
  fig_xaxis_type :: "pystr option"
  fig_x_dtick :: "nat option"
  fig_y_dtick :: "nat option"

text \<open>
  The environment of a call: what the engine answers to a query text (a frame, or an
  exception raised while connecting or executing), whether a \<open>plotly.express\<close> call raises,
  and the text of the error \<open>pd.to_datetime\<close> raises for a column it cannot convert.
\<close>

record env =
  read_sql :: "pystr \<Rightarrow> exn + dataframe"
  px_raises :: "figure \<Rightarrow> exn option"
  to_datetime_text :: "cell list \<Rightarrow> pystr"

definition px :: "env \<Rightarrow> figure \<Rightarrow> figure run" where
  "px e args = (case px_raises e args of Some ex \<Rightarrow> raise ex | None \<Rightarrow> ret args)"

text \<open>The keyword arguments every \<open>px\<close> call leaves at their defaults.\<close>

definition px_args :: "px_kind \<Rightarrow> dataframe \<Rightarrow> pystr \<Rightarrow> pystr \<Rightarrow> pystr \<Rightarrow> (pystr \<times> pystr) list \<Rightarrow> figure" where
  "px_args k df x y title labels =
     \<lparr>fig_kind = k, fig_data = df, fig_x = x, fig_y = y, fig_color = None, fig_size = None,
      fig_barmode = None, fig_markers = False, fig_hover_data = [], fig_size_max = None,
      fig_title = title, fig_labels = labels, fig_xaxis_type = None,
      fig_x_dtick = None, fig_y_dtick = None\<rparr>"

definition fetch_data :: "env \<Rightarrow> pystr \<Rightarrow> dataframe run" where
  "fetch_data e query =
     bind (emit (LogInfo (asc ''Executing SQL: '' @ query))) (\<lambda>_.
     bind (read_sql e query, [Sql query]) (\<lambda>df.
     bind (emit (LogInfo (asc ''Data fetched: '' @ str_nat (length (rows df)) @ asc '' rows''))) (\<lambda>_.
     ret df)))"

subsection \<open>Temporal normalisation\<close>

definition is_digit :: "int \<Rightarrow> bool" where
  "is_digit c \<longleftrightarrow> 48 \<le> c \<and> c \<le> 57"

text \<open>
  Modelled from the spec: \<open>pd.to_datetime(..., format='%Y%m')\<close> is library code; the spec
  gives the stored form as a six-digit text, four digits of year then two digits of month.
\<close>

definition strptime_Ym :: "pystr \<Rightarrow> (int \<times> int) option" where
  "strptime_Ym s =
     (case s of
        [y1, y2, y3, y4, m1, m2] \<Rightarrow>
          (if list_all is_digit s then
             (let year = (y1 - 48) * 1000 + (y2 - 48) * 100 + (y3 - 48) * 10 + (y4 - 48);
                  month = (m1 - 48) * 10 + (m2 - 48)
              in if 1 \<le> month \<and> month \<le> 12 then Some (year, month) else None)
           else None)
      | _ \<Rightarrow> None)"

text \<open>
  One value of the column: text and integers are read with the format, a missing value
  stays missing, a timestamp stays as it is.
\<close>

fun to_datetime_cell :: "cell \<Rightarrow> cell option" where
  "to_datetime_cell (CStr s) = map_option (\<lambda>(y, m). CTimestamp y m) (strptime_Ym s)"
| "to_datetime_cell (CInt i) =
     (if 0 \<le> i then map_option (\<lambda>(y, m). CTimestamp y m) (strptime_Ym (str_nat (nat i))) else None)"
| "to_datetime_cell CNull = Some CNull"
| "to_datetime_cell (CTimestamp y m) = Some (CTimestamp y m)"

definition cell_at :: "cell list \<Rightarrow> nat \<Rightarrow> cell" where
  "cell_at r i = (if i < length r then r ! i else CNull)"

fun index_of :: "'a \<Rightarrow> 'a list \<Rightarrow> nat" where
  "index_of c [] = 0"
| "index_of c (x # xs) = (if x = c then 0 else Suc (index_of c xs))"

text \<open>
  \<open>df[c] = pd.to_datetime(df[c], format='%Y%m')\<close>. Selecting a missing column raises
  \<open>KeyError\<close>; selecting a name that several columns share gives a frame, which
  \<open>to_datetime\<close> rejects; one value that does not convert makes the whole call raise, and
  then nothing is assigned.
\<close>

definition assign_to_datetime :: "env \<Rightarrow> dataframe \<Rightarrow> pystr \<Rightarrow> dataframe run" where
  "assign_to_datetime e df c =
     (if c \<notin> set (columns df) then raise (Exception ([0x27] @ c @ [0x27]))
      else
        (let i = index_of c (columns df);
             series = map (\<lambda>r. cell_at r i) (rows df)
         in if count_list (columns df) c \<noteq> 1 \<or> \<not> list_all (\<lambda>v. to_datetime_cell v \<noteq> None) series
            then raise (Exception (to_datetime_text e series))
            else ret (df\<lparr>rows := map (\<lambda>r. r[i := the (to_datetime_cell (cell_at r i))]) (rows df)\<rparr>)))"

section \<open>Query construction\<close>

text \<open>
  The block that every query builder of the source repeats: starting from the empty join
  clause, the join to \<open>DRIVER\<close> and then the join to \<open>REGION\<close> are appended when the table
  is among \<open>tables_needed\<close>.
\<close>

definition DRIVER_JOIN :: pystr where
  "DRIVER_JOIN = asc '' JOIN DRIVER ON ACCIDENT.AccidentID = DRIVER.AccidentID''"

definition REGION_JOIN :: pystr where
  "REGION_JOIN = asc '' JOIN REGION ON ACCIDENT.RegionCode = REGION.RegionCode''"

definition join_clause_of :: "pystr set \<Rightarrow> pystr" where
  "join_clause_of tables_needed =
     (let join_clause = [];
          join_clause = (if asc ''DRIVER'' \<in> tables_needed then join_clause @ DRIVER_JOIN else join_clause);
          join_clause = (if asc ''REGION'' \<in> tables_needed then join_clause @ REGION_JOIN else join_clause)
      in join_clause)"

text \<open>\<open>if agg_func:\<close> holds for a text that is neither \<open>None\<close> nor empty.\<close>

definition truthy :: "pystr option \<Rightarrow> bool" where
  "truthy v \<longleftrightarrow> (case v of None \<Rightarrow> False | Some s \<Rightarrow> s \<noteq> [])"

definition build_query_components ::
  "pystr \<Rightarrow> pystr \<Rightarrow> pystr option \<Rightarrow> (pystr \<times> pystr \<times> pystr \<times> pystr \<times> pystr) run" where
  "build_query_components var1 var2 agg_func =
     bind (unpack2 (split_on 0x2E var1)) (\<lambda>(table1, col1).
     bind (unpack2 (split_on 0x2E var2)) (\<lambda>(table2, col2).
       let tables_needed = {asc ''ACCIDENT'', table1, table2};
           from_clause = asc ''FROM ACCIDENT'';
           join_clause = join_clause_of tables_needed
       in if truthy agg_func then
            (let select_col2 =
                   (if col2 = ACCIDENT_COUNT_COL then asc ''COUNT(ACCIDENT.AccidentID)''
                    else (let safe_col2 = replace_del 0x29 (replace_del 0x28 col2)
                          in the agg_func @ asc ''('' @ table2 @ asc ''.'' @ safe_col2 @ asc '')''));
                 select_clause = asc ''SELECT '' @ table1 @ asc ''.'' @ col1 @ asc '', '' @ select_col2 @ asc '' AS Value'';
                 group_by_clause = asc ''GROUP BY '' @ table1 @ asc ''.'' @ col1;
                 order_by_clause = asc ''ORDER BY '' @ table1 @ asc ''.'' @ col1
             in ret (select_clause, from_clause, join_clause, group_by_clause, order_by_clause))
          else
            (let select_clause = asc ''SELECT '' @ table1 @ asc ''.'' @ col1 @ asc '', '' @ table2 @ asc ''.'' @ col2;
                 group_by_clause = [];
                 order_by_clause = []
             in ret (select_clause, from_clause, join_clause, group_by_clause, order_by_clause))))"

section \<open>The chart routines\<close>

text \<open>A result is the pair \<open>(fig, title)\<close> on success and \<open>(None, message)\<close> on failure.\<close>

type_synonym chart_result = "figure option \<times> pystr"

text \<open>\<open>'COUNT' if '(accident count)' in num_var else 'SUM'\<close>\<close>

definition agg_func_of :: "pystr \<Rightarrow> pystr" where
  "agg_func_of num_var = (if sublist ACCIDENT_COUNT_COL num_var then asc ''COUNT'' else asc ''SUM'')"

text \<open>The titles; the Korean parts read \<open>by\<close>, \<open>(top 20)\<close>, \<open>trend\<close>, \<open>and\<close>,
  \<open>(grouped bar chart)\<close>, \<open>'accident count' by combination (bubble chart)\<close>, \<open>along\<close>.\<close>

definition bar_title :: "pystr \<Rightarrow> pystr \<Rightarrow> pystr" where
  "bar_title cat_label num_label =
     [0x27] @ cat_label @ [0x27, 0x20, 0xBCC4, 0x20, 0x27] @ num_label
       @ [0x27, 0x20, 0x28, 0xC0C1, 0xC704, 0x20, 0x32, 0x30, 0xAC1C, 0x29]"

definition line_title :: "pystr \<Rightarrow> pystr \<Rightarrow> pystr" where
  "line_title time_label num_label =
     [0x27] @ time_label @ [0x27, 0x20, 0xBCC4, 0x20, 0x27] @ num_label @ [0x27, 0x20, 0xCD94, 0xC774]"

definition grouped_bar_title :: "pystr \<Rightarrow> pystr \<Rightarrow> pystr \<Rightarrow> pystr" where
  "grouped_bar_title label1 label2 num_label =
     [0x27] @ label1 @ [0x27, 0xC640, 0x20, 0x27] @ label2 @ [0x27, 0x20, 0xBCC4, 0x20, 0x27] @ num_label
       @ [0x27, 0x20, 0x28, 0xADF8, 0xB8F9, 0xD615, 0x20, 0xB9C9, 0xB300, 0x20, 0xCC28, 0xD2B8, 0x29]"

definition bubble_title :: "pystr \<Rightarrow> pystr \<Rightarrow> pystr" where
  "bubble_title label1 label2 =
     [0x27] @ label1 @ [0x27, 0xC640, 0x20, 0x27] @ label2
       @ [0x27, 0x20, 0xC870, 0xD569, 0xBCC4, 0x20, 0x27, 0xC0AC, 0xACE0, 0xAC74, 0xC218, 0x27, 0x20,
          0x28, 0xBC84, 0xBE14, 0x20, 0xCC28, 0xD2B8, 0x29]"

definition multi_line_title :: "pystr \<Rightarrow> pystr \<Rightarrow> pystr \<Rightarrow> pystr" where
  "multi_line_title time_label cat_label num_label =
     [0x27] @ time_label @ [0x27, 0xC5D0, 0x20, 0xB530, 0xB978, 0x20, 0x27] @ cat_label
       @ [0x27, 0xBCC4, 0x20, 0x27] @ num_label @ [0x27, 0x20, 0xCD94, 0xC774]"

text \<open>Case 1: vertical bar chart (categorical against numeric).\<close>

definition create_bar_chart :: "env \<Rightarrow> pystr \<Rightarrow> pystr \<Rightarrow> pystr \<Rightarrow> pystr \<Rightarrow> chart_result run" where
  "create_bar_chart e cat_var num_var cat_label num_label =
     (let title = bar_title cat_label num_label;
          agg_func = agg_func_of num_var
      in bind (build_query_components cat_var num_var (Some agg_func)) (\<lambda>(sel, frm, jn, grp, _).
         let query = sel @ asc '' '' @ frm @ asc '' '' @ jn @ asc '' '' @ grp @ asc '' ORDER BY Value DESC LIMIT 20''
         in bind (fetch_data e query) (\<lambda>df.
            bind (index1 (split_on 0x2E cat_var)) (\<lambda>col1_name.
            bind (px e (px_args PxBar df col1_name (asc ''Value'') title
                          [(col1_name, cat_label), (asc ''Value'', num_label)])) (\<lambda>fig.
            let fig = fig\<lparr>fig_xaxis_type := Some (asc ''category'')\<rparr>
            in ret (Some fig, title))))))"

text \<open>
  The conversion of the temporal column shared by the two line routines: when it raises, a
  warning is logged and the frame is used as it was fetched. The Korean parts of the
  warning read \<open>time conversion error\<close> and \<open>the format of 'OccurYearMonth' may not be
  'YYYYMM'\<close>.
\<close>

definition convert_time_axis :: "env \<Rightarrow> dataframe \<Rightarrow> pystr \<Rightarrow> dataframe run" where
  "convert_time_axis e df col1_name =
     try_except (assign_to_datetime e df col1_name) (\<lambda>ex.
       bind (emit (LogWarning ([0xC2DC, 0xAC04, 0x20, 0xBCC0, 0xD658, 0x20, 0xC624, 0xB958, 0x3A, 0x20]
               @ str_exn ex
               @ [0x2E, 0x20, 0x27] @ asc ''OccurYearMonth'' @ [0x27, 0x20, 0xD615, 0xC2DD, 0xC774, 0x20, 0x27]
               @ asc ''YYYYMM'' @ [0x27, 0xC774, 0x20, 0xC544, 0xB2D0, 0x20, 0xC218, 0x20, 0xC788,
                                   0xC2B5, 0xB2C8, 0xB2E4, 0x2E]))) (\<lambda>_.
       ret df))"

text \<open>Case 2: line chart (temporal against numeric).\<close>

definition create_line_chart :: "env \<Rightarrow> pystr \<Rightarrow> pystr \<Rightarrow> pystr \<Rightarrow> pystr \<Rightarrow> chart_result run" where
  "create_line_chart e time_var num_var time_label num_label =
     (let title = line_title time_label num_label;
          agg_func = agg_func_of num_var
      in bind (build_query_components time_var num_var (Some agg_func)) (\<lambda>(sel, frm, jn, grp, odr).
         let query = sel @ asc '' '' @ frm @ asc '' '' @ jn @ asc '' '' @ grp @ asc '' '' @ odr
         in bind (fetch_data e query) (\<lambda>df.
            bind (index1 (split_on 0x2E time_var)) (\<lambda>col1_name.
            bind (convert_time_axis e df col1_name) (\<lambda>df.
            bind (px e ((px_args PxLine df col1_name (asc ''Value'') title
                           [(col1_name, time_label), (asc ''Value'', num_label)])
                        \<lparr>fig_markers := True\<rparr>)) (\<lambda>fig.
            ret (Some fig, title)))))))"

text \<open>
  \<open>num_var.split('.')\<close> where \<open>num_var\<close> comes from a catalog lookup and may be \<open>None\<close>, which
  has no \<open>split\<close>.
\<close>

definition split_var :: "pystr option \<Rightarrow> pystr list run" where
  "split_var v =
     (case v of
        None \<Rightarrow> raise (Exception ([0x27] @ asc ''NoneType'' @ [0x27] @ asc '' object has no attribute ''
                                    @ [0x27] @ asc ''split'' @ [0x27]))
      | Some s \<Rightarrow> ret (split_on 0x2E s))"

text \<open>\<open>'COUNT(ACCIDENT.AccidentID)' if col3 == '(accident count)' else f'SUM({table3}.{col3})'\<close>\<close>

definition agg_val_of :: "pystr \<Rightarrow> pystr \<Rightarrow> pystr" where
  "agg_val_of table3 col3 =
     (if col3 = ACCIDENT_COUNT_COL then asc ''COUNT(ACCIDENT.AccidentID)''
      else asc ''SUM('' @ table3 @ asc ''.'' @ col3 @ asc '')'')"

text \<open>Case 3: grouped bar chart (categorical against categorical).\<close>

definition create_grouped_bar_chart ::
  "env \<Rightarrow> pystr \<Rightarrow> pystr \<Rightarrow> pystr option \<Rightarrow> pystr \<Rightarrow> pystr \<Rightarrow> pystr \<Rightarrow> chart_result run" where
  "create_grouped_bar_chart e var1 var2 num_var label1 label2 num_label =
     (let title = grouped_bar_title label1 label2 num_label
      in bind (unpack2 (split_on 0x2E var1)) (\<lambda>(table1, col1).
         bind (unpack2 (split_on 0x2E var2)) (\<lambda>(table2, col2).
         bind (bind (split_var num_var) unpack2) (\<lambda>(table3, col3).
         let agg_val = agg_val_of table3 col3;
             select_clause = asc ''SELECT '' @ table1 @ asc ''.'' @ col1 @ asc '', '' @ table2 @ asc ''.'' @ col2
                               @ asc '', '' @ agg_val @ asc '' AS Value'';
             tables_needed = {asc ''ACCIDENT'', table1, table2, table3};
             from_clause = asc ''FROM ACCIDENT'';
             join_clause = join_clause_of tables_needed;
             group_by_clause = asc ''GROUP BY '' @ table1 @ asc ''.'' @ col1 @ asc '', '' @ table2 @ asc ''.'' @ col2;
             query = select_clause @ asc '' '' @ from_clause @ asc '' '' @ join_clause @ asc '' '' @ group_by_clause
         in bind (fetch_data e query) (\<lambda>df.
            bind (px e ((px_args PxBar df col1 (asc ''Value'') title
                           [(col1, label1), (col2, label2), (asc ''Value'', num_label)])
                        \<lparr>fig_color := Some col2, fig_barmode := Some (asc ''group'')\<rparr>)) (\<lambda>fig.
            ret (Some fig, title)))))))"

text \<open>Case 4: bubble chart (numeric against numeric). The message read when the frame is
  empty: \<open>no data, the bubble chart cannot be built\<close>.\<close>

definition MSG_NO_DATA :: pystr where
  "MSG_NO_DATA = [0xB370, 0xC774, 0xD130, 0xAC00, 0x20, 0xC5C6, 0xC5B4, 0x20, 0xBC84, 0xBE14, 0x20,
                  0xCC28, 0xD2B8, 0xB97C, 0x20, 0xC0DD, 0xC131, 0xD560, 0x20, 0xC218, 0x20,
                  0xC5C6, 0xC2B5, 0xB2C8, 0xB2E4, 0x2E]"

definition create_bubble_chart :: "env \<Rightarrow> pystr \<Rightarrow> pystr \<Rightarrow> pystr \<Rightarrow> pystr \<Rightarrow> chart_result run" where
  "create_bubble_chart e var1 var2 label1 label2 =
     (let title = bubble_title label1 label2
      in bind (unpack2 (split_on 0x2E var1)) (\<lambda>(table1, col1).
         bind (unpack2 (split_on 0x2E var2)) (\<lambda>(table2, col2).
         let select_clause = asc ''SELECT '' @ table1 @ asc ''.'' @ col1 @ asc '', '' @ table2 @ asc ''.'' @ col2
                               @ asc '', COUNT(ACCIDENT.AccidentID) AS BubbleSize'';
             tables_needed = {asc ''ACCIDENT'', table1, table2};
             from_clause = asc ''FROM ACCIDENT'';
             join_clause = join_clause_of tables_needed;
             group_by_clause = asc ''GROUP BY '' @ table1 @ asc ''.'' @ col1 @ asc '', '' @ table2 @ asc ''.'' @ col2;
             query = select_clause @ asc '' '' @ from_clause @ asc '' '' @ join_clause @ asc '' '' @ group_by_clause
         in bind (fetch_data e query) (\<lambda>df.
            if df_empty df then ret (None, MSG_NO_DATA)
            else
              bind (px e ((px_args PxScatter df col1 col2 title
                             [(col1, label1), (col2, label2), (asc ''BubbleSize'', ACCIDENT_COUNT)])
                          \<lparr>fig_size := Some (asc ''BubbleSize''), fig_color := Some (asc ''BubbleSize''),
                           fig_hover_data := [(col1, True), (col2, True), (asc ''BubbleSize'', True)],
                           fig_size_max := Some 60\<rparr>)) (\<lambda>fig.
              let fig = fig\<lparr>fig_x_dtick := Some 1\<rparr>;
                  fig = fig\<lparr>fig_y_dtick := Some 1\<rparr>
              in ret (Some fig, title))))))"

text \<open>Case 5: multi-line chart (temporal against categorical).\<close>

definition create_multi_line_chart ::
  "env \<Rightarrow> pystr \<Rightarrow> pystr \<Rightarrow> pystr option \<Rightarrow> pystr \<Rightarrow> pystr \<Rightarrow> pystr \<Rightarrow> chart_result run" where
  "create_multi_line_chart e time_var cat_var num_var time_label cat_label num_label =
     (let title = multi_line_title time_label cat_label num_label
      in bind (unpack2 (split_on 0x2E time_var)) (\<lambda>(table1, col1).
         bind (unpack2 (split_on 0x2E cat_var)) (\<lambda>(table2, col2).
         bind (bind (split_var num_var) unpack2) (\<lambda>(table3, col3).
         let agg_val = agg_val_of table3 col3;
             select_clause = asc ''SELECT '' @ table1 @ asc ''.'' @ col1 @ asc '', '' @ table2 @ asc ''.'' @ col2
                               @ asc '', '' @ agg_val @ asc '' AS Value'';
             tables_needed = {asc ''ACCIDENT'', table1, table2, table3};
             from_clause = asc ''FROM ACCIDENT'';
             join_clause = join_clause_of tables_needed;
             group_by_clause = asc ''GROUP BY '' @ table1 @ asc ''.'' @ col1 @ asc '', '' @ table2 @ asc ''.'' @ col2;
             order_by_clause = asc ''ORDER BY '' @ table1 @ asc ''.'' @ col1;
             query = select_clause @ asc '' '' @ from_clause @ asc '' '' @ join_clause @ asc '' '' @ group_by_clause
                       @ asc '' '' @ order_by_clause
         in bind (fetch_data e query) (\<lambda>df.
            bind (index1 (split_on 0x2E time_var)) (\<lambda>col1_name.
            bind (convert_time_axis e df col1_name) (\<lambda>df.
            bind (px e ((px_args PxLine df col1_name (asc ''Value'') title
                           [(col1, time_label), (asc ''Value'', num_label), (col2, cat_label)])
                        \<lparr>fig_color := Some col2, fig_markers := True\<rparr>)) (\<lambda>fig.
            ret (Some fig, title)))))))))"

section \<open>The dispatcher\<close>

text \<open>The messages: \<open>the selected field name was not found\<close>, \<open>this visualisation does not
  support 'accident count'\<close>, \<open>no visualisation can be built for the selected combination\<close>,
  and the prefixes \<open>error while building the visualisation\<close> (log) and \<open>an error occurred
  while building the chart\<close> (result).\<close>

definition MSG_NOT_FOUND :: pystr where
  "MSG_NOT_FOUND = [0xC120, 0xD0DD, 0xB41C, 0x20, 0xBCC0, 0xC218, 0xBA85, 0xC744, 0x20, 0xCC3E, 0xC744,
                    0x20, 0xC218, 0x20, 0xC5C6, 0xC2B5, 0xB2C8, 0xB2E4, 0x2E]"

definition MSG_NO_ACCIDENT_COUNT :: pystr where
  "MSG_NO_ACCIDENT_COUNT = [0xC774, 0x20, 0xC2DC, 0xAC01, 0xD654, 0xB294, 0x20, 0x27, 0xC0AC, 0xACE0,
                            0xAC74, 0xC218, 0x27, 0xB97C, 0x20, 0xC9C0, 0xC6D0, 0xD558, 0xC9C0, 0x20,
                            0xC54A, 0xC2B5, 0xB2C8, 0xB2E4, 0x2E]"

definition MSG_NO_COMBINATION :: pystr where
  "MSG_NO_COMBINATION = [0xC120, 0xD0DD, 0xB41C, 0x20, 0xC870, 0xD569, 0xC5D0, 0x20, 0xB300, 0xD55C, 0x20,
                         0xC2DC, 0xAC01, 0xD654, 0xB97C, 0x20, 0xC0DD, 0xC131, 0xD560, 0x20, 0xC218,
                         0x20, 0xC5C6, 0xC2B5, 0xB2C8, 0xB2E4, 0x2E]"

definition LOG_ERROR_PREFIX :: pystr where
  "LOG_ERROR_PREFIX = [0xC2DC, 0xAC01, 0xD654, 0x20, 0xC0DD, 0xC131, 0x20, 0xC911, 0x20, 0xC624, 0xB958,
                       0x3A, 0x20]"

definition MSG_ERROR_PREFIX :: pystr where
  "MSG_ERROR_PREFIX = [0xCC28, 0xD2B8, 0x20, 0xC0DD, 0xC131, 0x20, 0xC911, 0x20, 0xC624, 0xB958, 0xAC00,
                       0x20, 0xBC1C, 0xC0DD, 0xD588, 0xC2B5, 0xB2C8, 0xB2E4, 0x3A, 0x20]"

definition LOG_START_PREFIX :: pystr where
  "LOG_START_PREFIX = [0xC2DC, 0xAC01, 0xD654, 0x20, 0xC0DD, 0xC131, 0x20, 0xC2DC, 0xC791, 0x3A, 0x20]"

text \<open>The body of the \<open>try\<close> block of \<open>generate_visualization\<close>.\<close>

definition dispatch :: "env \<Rightarrow> pystr \<Rightarrow> pystr \<Rightarrow> pystr \<Rightarrow> pystr \<Rightarrow> pystr \<Rightarrow> pystr \<Rightarrow> chart_result run" where
  "dispatch e var1 var2 label1 label2 type1 type2 =
     (if type1 = TYPE_CATEGORICAL \<and> type2 = TYPE_NUMERIC then
        create_bar_chart e var1 var2 label1 label2
      else if type1 = TYPE_NUMERIC \<and> type2 = TYPE_CATEGORICAL then
        create_bar_chart e var2 var1 label2 label1
      else if type1 = TYPE_TEMPORAL \<and> type2 = TYPE_NUMERIC then
        create_line_chart e var1 var2 label1 label2
      else if type1 = TYPE_NUMERIC \<and> type2 = TYPE_TEMPORAL then
        create_line_chart e var2 var1 label2 label1
      else if type1 = TYPE_CATEGORICAL \<and> type2 = TYPE_CATEGORICAL then
        (let num_label = ACCIDENT_COUNT;
             num_var = get_internal_name num_label
         in create_grouped_bar_chart e var1 var2 num_var label1 label2 num_label)
      else if type1 = TYPE_NUMERIC \<and> type2 = TYPE_NUMERIC then
        (if ACCIDENT_COUNT \<in> set [label1, label2] then ret (None, MSG_NO_ACCIDENT_COUNT)
         else create_bubble_chart e var1 var2 label1 label2)
      else if type1 = TYPE_TEMPORAL \<and> type2 = TYPE_CATEGORICAL then
        (let num_label = ACCIDENT_COUNT;
             num_var = get_internal_name num_label
         in create_multi_line_chart e var1 var2 num_var label1 label2 num_label)
      else if type1 = TYPE_CATEGORICAL \<and> type2 = TYPE_TEMPORAL then
        (let num_label = ACCIDENT_COUNT;
             num_var = get_internal_name num_label
         in create_multi_line_chart e var2 var1 num_var label2 label1 num_label)
      else ret (None, MSG_NO_COMBINATION))"

text \<open>The \<open>except Exception as e\<close> block of \<open>generate_visualization\<close>.\<close>

definition except_block :: "exn \<Rightarrow> chart_result run" where
  "except_block ex =
     bind (emit (LogError (LOG_ERROR_PREFIX @ str_exn ex))) (\<lambda>_.
     ret (None, MSG_ERROR_PREFIX @ str_exn ex))"

definition generate_visualization :: "env \<Rightarrow> pystr \<Rightarrow> pystr \<Rightarrow> chart_result run" where
  "generate_visualization e label1 label2 =
     (let var1 = get_internal_name label1;
          var2 = get_internal_name label2
      in if \<not> truthy var1 \<or> \<not> truthy var2 then ret (None, MSG_NOT_FOUND)
         else
           (let type1 = get_column_type (the var1);
                type2 = get_column_type (the var2)
            in bind (emit (LogInfo (LOG_START_PREFIX @ label1 @ asc ''('' @ type1 @ asc '') vs ''
                                      @ label2 @ asc ''('' @ type2 @ asc '')''))) (\<lambda>_.
               try_except (dispatch e (the var1) (the var2) label1 label2 type1 type2) except_block)))"

section \<open>Notions used in the statements\<close>

text \<open>The display labels of the catalog, the keys of \<open>LABEL_TO_INTERNAL\<close>.\<close>

definition catalog_labels :: "pystr set" where
  "catalog_labels = set (map (\<lambda>(k, v). col_label v) COLUMN_CONFIG)"

text \<open>The record logged when a request with two resolved labels starts.\<close>

definition start_record :: "pystr \<Rightarrow> pystr \<Rightarrow> pystr \<Rightarrow> pystr \<Rightarrow> event" where
  "start_record label1 type1 label2 type2 =
     LogInfo (LOG_START_PREFIX @ label1 @ asc ''('' @ type1 @ asc '') vs '' @ label2 @ asc ''('' @ type2 @ asc '')'')"

text \<open>
  An internal identifier has the form \<open><Table>.<Column>\<close>: the owning table is the part
  before the dot, the column the part after it.
\<close>

definition owning_table :: "pystr \<Rightarrow> pystr" where
  "owning_table v = takeWhile (\<lambda>c. c \<noteq> 0x2E) v"

definition column_of :: "pystr \<Rightarrow> pystr" where
  "column_of v = drop 1 (dropWhile (\<lambda>c. c \<noteq> 0x2E) v)"

text \<open>The internal identifier of the accident-count pseudo-field.\<close>

abbreviation ACCIDENT_COUNT_ID :: pystr where
  "ACCIDENT_COUNT_ID \<equiv> asc ''ACCIDENT.'' @ ACCIDENT_COUNT_COL"

text \<open>
  \<open>no_pair a b s\<close>: in \<open>s\<close> the character \<open>a\<close> is never followed by \<open>b\<close>, and \<open>s\<close> does not
  end with \<open>a\<close>. A text built from such pieces cannot contain a keyword in which \<open>a\<close> is
  followed by \<open>b\<close>.
\<close>

fun no_pair :: "int \<Rightarrow> int \<Rightarrow> pystr \<Rightarrow> bool" where
  "no_pair a b [] = True"
| "no_pair a b [x] = (x \<noteq> a)"
| "no_pair a b (x # y # zs) = (\<not> (x = a \<and> y = b) \<and> no_pair a b (y # zs))"

text \<open>
  What every field of the catalog satisfies: its identifier splits at the one dot into table
  and column, the table is one of the three of the schema, and no part of it can begin or
  complete one of the keywords \<open>LIMIT\<close>, \<open>JOIN\<close>, \<open>FROM\<close>.
\<close>

definition field_ok :: "pystr \<Rightarrow> bool" where
  "field_ok v \<longleftrightarrow> split_on 0x2E v = [owning_table v, column_of v]
     \<and> v = owning_table v @ [0x2E] @ column_of v
     \<and> owning_table v \<in> set [asc ''ACCIDENT'', asc ''DRIVER'', asc ''REGION'']
     \<and> no_pair 76 73 v \<and> no_pair 74 79 v \<and> no_pair 70 82 v"

text \<open>
  What every numeric field of the catalog satisfies: it lives in \<open>ACCIDENT\<close>, and it either
  is the accident-count pseudo-field or has a plain column name without parentheses.
\<close>

definition numeric_ok :: "pystr \<Rightarrow> bool" where
  "numeric_ok v \<longleftrightarrow> owning_table v = asc ''ACCIDENT'' \<and>
    (if v = ACCIDENT_COUNT_ID then column_of v = ACCIDENT_COUNT_COL \<and> sublist ACCIDENT_COUNT_COL v
     else column_of v \<noteq> ACCIDENT_COUNT_COL \<and> \<not> sublist ACCIDENT_COUNT_COL v
          \<and> replace_del 0x29 (replace_del 0x28 (column_of v)) = column_of v)"

text \<open>Free of all three keyword pairs: \<open>LI\<close>, \<open>JO\<close> and \<open>FR\<close>.\<close>

definition clean :: "pystr \<Rightarrow> bool" where
  "clean s \<longleftrightarrow> no_pair 76 73 s \<and> no_pair 74 79 s \<and> no_pair 70 82 s"

subsection \<open>The dispatch table and the query builder as the specification words them\<close>

datatype chart_kind = Bar | Line | GroupedBar | Bubble | MultiLine

text \<open>
  What the specification's dispatch table selects for a pair of labels: the chart kind, the
  dimension fields in axis order (the first one on X) and the aggregated field.
\<close>

record plan =
  plan_kind :: chart_kind
  plan_dims :: "pystr list"
  plan_measure :: pystr

definition spec_dispatch_fields :: "pystr \<Rightarrow> pystr \<Rightarrow> pystr \<Rightarrow> pystr \<Rightarrow> plan option" where
  "spec_dispatch_fields label1 label2 f1 f2 =
     (let t1 = get_column_type f1; t2 = get_column_type f2
      in if t1 = TYPE_CATEGORICAL \<and> t2 = TYPE_NUMERIC then
           Some \<lparr>plan_kind = Bar, plan_dims = [f1], plan_measure = f2\<rparr>
         else if t1 = TYPE_NUMERIC \<and> t2 = TYPE_CATEGORICAL then
           Some \<lparr>plan_kind = Bar, plan_dims = [f2], plan_measure = f1\<rparr>
         else if t1 = TYPE_TEMPORAL \<and> t2 = TYPE_NUMERIC then
           Some \<lparr>plan_kind = Line, plan_dims = [f1], plan_measure = f2\<rparr>
         else if t1 = TYPE_NUMERIC \<and> t2 = TYPE_TEMPORAL then
           Some \<lparr>plan_kind = Line, plan_dims = [f2], plan_measure = f1\<rparr>
         else if t1 = TYPE_CATEGORICAL \<and> t2 = TYPE_CATEGORICAL then
           Some \<lparr>plan_kind = GroupedBar, plan_dims = [f1, f2], plan_measure = ACCIDENT_COUNT_ID\<rparr>
         else if t1 = TYPE_NUMERIC \<and> t2 = TYPE_NUMERIC then
           (if label1 = ACCIDENT_COUNT \<or> label2 = ACCIDENT_COUNT then None
            else Some \<lparr>plan_kind = Bubble, plan_dims = [f1, f2], plan_measure = ACCIDENT_COUNT_ID\<rparr>)
         else if t1 = TYPE_TEMPORAL \<and> t2 = TYPE_CATEGORICAL then
           Some \<lparr>plan_kind = MultiLine, plan_dims = [f1, f2], plan_measure = ACCIDENT_COUNT_ID\<rparr>
         else if t1 = TYPE_CATEGORICAL \<and> t2 = TYPE_TEMPORAL then
           Some \<lparr>plan_kind = MultiLine, plan_dims = [f2, f1], plan_measure = ACCIDENT_COUNT_ID\<rparr>
         else None)"

text \<open>Resolve both labels, then dispatch on the pair of types.\<close>

definition spec_dispatch :: "pystr \<Rightarrow> pystr \<Rightarrow> plan option" where
  "spec_dispatch label1 label2 =
     (case (get_internal_name label1, get_internal_name label2) of
        (Some f1, Some f2) \<Rightarrow> spec_dispatch_fields label1 label2 f1 f2
      | _ \<Rightarrow> None)"

fun comma_join :: "pystr list \<Rightarrow> pystr" where
  "comma_join [] = []"
| "comma_join [x] = x"
| "comma_join (x # y # zs) = x @ asc '', '' @ comma_join (y # zs)"

text \<open>Aggregate selection: a row count for the accident-count pseudo-field, a sum otherwise.\<close>

definition expected_aggregate :: "pystr \<Rightarrow> pystr" where
  "expected_aggregate field =
     (if field = ACCIDENT_COUNT_ID then asc ''COUNT(ACCIDENT.AccidentID)''
      else asc ''SUM('' @ field @ asc '')'')"

text \<open>A join to a secondary table exactly when it owns one of the involved fields.\<close>

definition expected_joins :: "pystr list \<Rightarrow> pystr" where
  "expected_joins involved =
     (if asc ''DRIVER'' \<in> owning_table ` set involved then DRIVER_JOIN else [])
     @ (if asc ''REGION'' \<in> owning_table ` set involved then REGION_JOIN else [])"

definition value_alias :: "chart_kind \<Rightarrow> pystr" where
  "value_alias k = (if k = Bubble then asc ''BubbleSize'' else asc ''Value'')"

text \<open>Top 20 by value for the bar chart, time order for the line charts, no order otherwise.\<close>

definition order_clause :: "chart_kind \<Rightarrow> pystr list \<Rightarrow> pystr" where
  "order_clause k dims =
     (case k of
        Bar \<Rightarrow> asc '' ORDER BY Value DESC LIMIT 20''
      | Line \<Rightarrow> asc '' ORDER BY '' @ hd dims
      | MultiLine \<Rightarrow> asc '' ORDER BY '' @ hd dims
      | _ \<Rightarrow> [])"

definition spec_query :: "plan \<Rightarrow> pystr" where
  "spec_query p =
     asc ''SELECT '' @ comma_join (plan_dims p) @ asc '', '' @ expected_aggregate (plan_measure p)
       @ asc '' AS '' @ value_alias (plan_kind p)
       @ asc '' FROM ACCIDENT '' @ expected_joins (plan_dims p @ [plan_measure p])
       @ asc '' GROUP BY '' @ comma_join (plan_dims p) @ order_clause (plan_kind p) (plan_dims p)"

text \<open>The pairs of types that the dispatch table of the specification lists.\<close>

definition handled :: "pystr \<Rightarrow> pystr \<Rightarrow> bool" where
  "handled t1 t2 \<longleftrightarrow>
     (t1, t2) \<in> set [(TYPE_CATEGORICAL, TYPE_NUMERIC), (TYPE_NUMERIC, TYPE_CATEGORICAL),
                     (TYPE_TEMPORAL, TYPE_NUMERIC), (TYPE_NUMERIC, TYPE_TEMPORAL),
                     (TYPE_CATEGORICAL, TYPE_CATEGORICAL), (TYPE_NUMERIC, TYPE_NUMERIC),
                     (TYPE_TEMPORAL, TYPE_CATEGORICAL), (TYPE_CATEGORICAL, TYPE_TEMPORAL)]"

subsection \<open>Two environments for concrete runs\<close>

text \<open>An engine that cannot be reached, and one that answers every query with one row.\<close>

definition env_down :: env where
  "env_down = \<lparr>read_sql = (\<lambda>q. Inl (Exception (asc ''connection refused''))),
                px_raises = (\<lambda>_. None), to_datetime_text = (\<lambda>_. asc ''time data does not match format'')\<rparr>"

definition one_row :: "cell list \<Rightarrow> dataframe" where
  "one_row r = \<lparr>columns = [asc ''OccurYearMonth'', asc ''Value''], rows = [r]\<rparr>"

definition env_up :: "cell list \<Rightarrow> env" where
  "env_up r = \<lparr>read_sql = (\<lambda>q. Inr (one_row r)),
                px_raises = (\<lambda>_. None), to_datetime_text = (\<lambda>_. asc ''time data does not match format'')\<rparr>"

section \<open>Basic facts: results and traces\<close>

lemma fst_ret [simp]: "fst (ret x) = Inr x" and snd_ret [simp]: "snd (ret x) = []"
  by (simp_all add: ret_def)

lemma fst_raise [simp]: "fst (raise ex) = Inl ex" and snd_raise [simp]: "snd (raise ex) = []"
  by (simp_all add: raise_def)

lemma fst_emit [simp]: "fst (emit ev) = Inr ()" and snd_emit [simp]: "snd (emit ev) = [ev]"
  by (simp_all add: emit_def)

lemma fst_bind: "fst (bind m f) = (case fst m of Inl ex \<Rightarrow> Inl ex | Inr x \<Rightarrow> fst (f x))"
  by (cases m) (auto simp: bind_def split: sum.splits prod.splits)

lemma snd_bind: "snd (bind m f) = snd m @ (case fst m of Inl ex \<Rightarrow> [] | Inr x \<Rightarrow> snd (f x))"
  by (cases m) (auto simp: bind_def split: sum.splits prod.splits)

lemma fst_try_except: "fst (try_except m h) = (case fst m of Inl ex \<Rightarrow> fst (h ex) | Inr x \<Rightarrow> Inr x)"
  by (cases m) (auto simp: try_except_def split: sum.splits prod.splits)

lemma snd_try_except: "snd (try_except m h) = snd m @ (case fst m of Inl ex \<Rightarrow> snd (h ex) | Inr x \<Rightarrow> [])"
  by (cases m) (auto simp: try_except_def split: sum.splits prod.splits)

lemma bind_ret [simp]: "bind (ret x) f = f x"
  by (simp add: bind_def ret_def split: prod.splits)

lemma bind_raise [simp]: "bind (raise ex) f = raise ex"
  by (simp add: bind_def raise_def)

lemma queries_simps [simp]:
  "queries [] = []" "queries (Sql q # t) = q # queries t"
  "queries (LogInfo m # t) = queries t" "queries (LogWarning m # t) = queries t"
  "queries (LogError m # t) = queries t" "queries (t @ t') = queries t @ queries t'"
  by (simp_all add: queries_def)

lemma fst_except_block [simp]: "fst (except_block ex) = Inr (None, MSG_ERROR_PREFIX @ str_exn ex)"
  by (simp add: except_block_def fst_bind)

lemma snd_except_block [simp]: "snd (except_block ex) = [LogError (LOG_ERROR_PREFIX @ str_exn ex)]"
  by (simp add: except_block_def snd_bind)

section \<open>Facts about the catalog\<close>

lemma get_internal_name_None_iff: "get_internal_name l = None \<longleftrightarrow> l \<notin> catalog_labels"
  by (auto simp: get_internal_name_def dict_get_def LABEL_TO_INTERNAL_def catalog_labels_def
      map_of_eq_None_iff image_iff split: prod.splits)

lemma resolved_in_catalog:
  assumes "get_internal_name l = Some v"
  shows "\<exists>info. (v, info) \<in> set COLUMN_CONFIG \<and> col_label info = l"
proof -
  from assms have "(l, v) \<in> set (rev LABEL_TO_INTERNAL)"
    unfolding get_internal_name_def dict_get_def by (rule map_of_SomeD)
  then show ?thesis by (auto simp: LABEL_TO_INTERNAL_def)
qed

lemma catalog_all:
  assumes "list_all (\<lambda>(v, info). P v info) COLUMN_CONFIG" and "(v, info) \<in> set COLUMN_CONFIG"
  shows "P v info"
  using assms by (auto simp: list_all_iff)

lemma catalog_ids_nonempty: "list_all (\<lambda>(v, info). v \<noteq> []) COLUMN_CONFIG"
  by (simp add: COLUMN_CONFIG_def asc_def)

lemma resolved_nonempty: "get_internal_name l = Some v \<Longrightarrow> v \<noteq> []"
  using resolved_in_catalog[of l v] catalog_all[OF catalog_ids_nonempty] by blast

section \<open>The dispatcher on unresolved and on resolved labels\<close>

lemma generate_unresolved:
  "get_internal_name l1 = None \<or> get_internal_name l2 = None \<Longrightarrow>
     generate_visualization e l1 l2 = (Inr (None, MSG_NOT_FOUND), [])"
  by (auto simp: generate_visualization_def truthy_def ret_def Let_def)

lemma generate_resolved:
  assumes "get_internal_name l1 = Some v1" and "get_internal_name l2 = Some v2"
  shows "generate_visualization e l1 l2 =
           bind (emit (start_record l1 (get_column_type v1) l2 (get_column_type v2))) (\<lambda>_.
             try_except (dispatch e v1 v2 l1 l2 (get_column_type v1) (get_column_type v2)) except_block)"
  using assms resolved_nonempty[OF assms(1)] resolved_nonempty[OF assms(2)]
  by (simp add: generate_visualization_def truthy_def Let_def start_record_def)

section \<open>More facts about the catalog\<close>

lemma catalog_fields: "list_all (\<lambda>(v, info).
    field_ok v \<and> (col_type info = TYPE_NUMERIC \<longrightarrow> numeric_ok v)
    \<and> col_type info \<in> set [TYPE_CATEGORICAL, TYPE_NUMERIC, TYPE_TEMPORAL]
    \<and> dict_get COLUMN_CONFIG v = Some info
    \<and> get_internal_name (col_label info) = Some v) COLUMN_CONFIG"
  by code_simp

lemma count_id: "get_internal_name ACCIDENT_COUNT = Some ACCIDENT_COUNT_ID"
  by code_simp

lemma count_id_split:
  "split_on 0x2E ACCIDENT_COUNT_ID = [asc ''ACCIDENT'', ACCIDENT_COUNT_COL]"
  "owning_table ACCIDENT_COUNT_ID = asc ''ACCIDENT''"
  by code_simp+

lemma resolved_field:
  assumes "get_internal_name l = Some v"
  shows "field_ok v" and "get_column_type v = TYPE_NUMERIC \<Longrightarrow> numeric_ok v"
    and "get_column_type v \<in> set [TYPE_CATEGORICAL, TYPE_NUMERIC, TYPE_TEMPORAL]"
proof -
  from resolved_in_catalog[OF assms] obtain info where i: "(v, info) \<in> set COLUMN_CONFIG" by blast
  note s = catalog_all[OF catalog_fields i]
  from s show "field_ok v" by blast
  from s have t: "get_column_type v = col_type info" by (simp add: get_column_type_def)
  from s t show "get_column_type v \<in> set [TYPE_CATEGORICAL, TYPE_NUMERIC, TYPE_TEMPORAL]" by metis
  show "numeric_ok v" if "get_column_type v = TYPE_NUMERIC"
    using s that t by metis
qed

lemma asc_append: "asc (a @ b) = asc a @ asc b"
  by (simp add: asc_def)

lemma queries_unpack2 [simp]: "queries (snd (unpack2 xs)) = []"
  by (simp add: unpack2_def split: list.splits)
lemma unpack2_two [simp]: "unpack2 [a, b] = ret (a, b)"
  by (simp add: unpack2_def)
lemma index1_two [simp]: "index1 [a, b] = ret b"
  by (simp add: index1_def)
lemma snd_px_queries [simp]: "queries (snd (px e args)) = []"
  by (simp add: px_def split: option.splits)
lemma fst_fetch [simp]: "fst (fetch_data e q) = read_sql e q"
  by (simp add: fetch_data_def fst_bind split: sum.splits)
lemma queries_fetch [simp]: "queries (snd (fetch_data e q)) = [q]"
  by (simp add: fetch_data_def snd_bind fst_bind split: sum.splits)
lemma queries_assign [simp]: "queries (snd (assign_to_datetime e df c)) = []"
  by (simp add: assign_to_datetime_def Let_def)
lemma queries_convert [simp]: "queries (snd (convert_time_axis e df c)) = []"
  by (simp add: convert_time_axis_def snd_try_except snd_bind split: sum.splits)

lemma join_clause_of_eq:
  "join_clause_of S = (if asc ''DRIVER'' \<in> S then DRIVER_JOIN else []) @ (if asc ''REGION'' \<in> S then REGION_JOIN else [])"
  by (simp add: join_clause_of_def Let_def)

lemma build_ok:
  assumes "split_on 0x2E v1 = [t1, c1]" "split_on 0x2E v2 = [t2, c2]" "agg \<noteq> []"
  shows "build_query_components v1 v2 (Some agg) =
    ret (asc ''SELECT '' @ t1 @ asc ''.'' @ c1 @ asc '', ''
           @ (if c2 = ACCIDENT_COUNT_COL then asc ''COUNT(ACCIDENT.AccidentID)''
              else agg @ asc ''('' @ t2 @ asc ''.'' @ replace_del 0x29 (replace_del 0x28 c2) @ asc '')'')
           @ asc '' AS Value'',
         asc ''FROM ACCIDENT'', join_clause_of {asc ''ACCIDENT'', t1, t2},
         asc ''GROUP BY '' @ t1 @ asc ''.'' @ c1, asc ''ORDER BY '' @ t1 @ asc ''.'' @ c1)"
  using assms by (simp add: build_query_components_def truthy_def Let_def)

lemma agg_func_of_nonempty: "agg_func_of nv \<noteq> []"
  by (simp add: agg_func_of_def asc_def)

lemma bar_queries:
  assumes "split_on 0x2E v1 = [t1, c1]" "split_on 0x2E v2 = [t2, c2]"
  shows "queries (snd (create_bar_chart e v1 v2 l1 l2)) =
    [asc ''SELECT '' @ t1 @ asc ''.'' @ c1 @ asc '', ''
           @ (if c2 = ACCIDENT_COUNT_COL then asc ''COUNT(ACCIDENT.AccidentID)''
              else agg_func_of v2 @ asc ''('' @ t2 @ asc ''.'' @ replace_del 0x29 (replace_del 0x28 c2) @ asc '')'')
           @ asc '' AS Value'' @ asc '' '' @ asc ''FROM ACCIDENT'' @ asc '' '' @ join_clause_of {asc ''ACCIDENT'', t1, t2}
           @ asc '' '' @ asc ''GROUP BY '' @ t1 @ asc ''.'' @ c1 @ asc '' ORDER BY Value DESC LIMIT 20'']"
  by (simp add: create_bar_chart_def Let_def build_ok[OF assms agg_func_of_nonempty] assms snd_bind fst_bind
        split: sum.splits)

lemma line_queries:
  assumes "split_on 0x2E v1 = [t1, c1]" "split_on 0x2E v2 = [t2, c2]"
  shows "queries (snd (create_line_chart e v1 v2 l1 l2)) =
    [asc ''SELECT '' @ t1 @ asc ''.'' @ c1 @ asc '', ''
           @ (if c2 = ACCIDENT_COUNT_COL then asc ''COUNT(ACCIDENT.AccidentID)''
              else agg_func_of v2 @ asc ''('' @ t2 @ asc ''.'' @ replace_del 0x29 (replace_del 0x28 c2) @ asc '')'')
           @ asc '' AS Value'' @ asc '' '' @ asc ''FROM ACCIDENT'' @ asc '' '' @ join_clause_of {asc ''ACCIDENT'', t1, t2}
           @ asc '' '' @ asc ''GROUP BY '' @ t1 @ asc ''.'' @ c1 @ asc '' '' @ asc ''ORDER BY '' @ t1 @ asc ''.'' @ c1]"
  by (simp add: create_line_chart_def Let_def build_ok[OF assms agg_func_of_nonempty] assms snd_bind fst_bind
        split: sum.splits)

lemma grouped_queries:
  assumes "split_on 0x2E v1 = [t1, c1]" "split_on 0x2E v2 = [t2, c2]" "split_on 0x2E v3 = [t3, c3]"
  shows "queries (snd (create_grouped_bar_chart e v1 v2 (Some v3) l1 l2 l3)) =
    [asc ''SELECT '' @ t1 @ asc ''.'' @ c1 @ asc '', '' @ t2 @ asc ''.'' @ c2 @ asc '', '' @ agg_val_of t3 c3
           @ asc '' AS Value'' @ asc '' '' @ asc ''FROM ACCIDENT'' @ asc '' ''
           @ join_clause_of {asc ''ACCIDENT'', t1, t2, t3}
           @ asc '' '' @ asc ''GROUP BY '' @ t1 @ asc ''.'' @ c1 @ asc '', '' @ t2 @ asc ''.'' @ c2]"
  by (simp add: create_grouped_bar_chart_def Let_def assms split_var_def snd_bind fst_bind split: sum.splits)

lemma bubble_queries:
  assumes "split_on 0x2E v1 = [t1, c1]" "split_on 0x2E v2 = [t2, c2]"
  shows "queries (snd (create_bubble_chart e v1 v2 l1 l2)) =
    [asc ''SELECT '' @ t1 @ asc ''.'' @ c1 @ asc '', '' @ t2 @ asc ''.'' @ c2
           @ asc '', COUNT(ACCIDENT.AccidentID) AS BubbleSize'' @ asc '' '' @ asc ''FROM ACCIDENT'' @ asc '' ''
           @ join_clause_of {asc ''ACCIDENT'', t1, t2}
           @ asc '' '' @ asc ''GROUP BY '' @ t1 @ asc ''.'' @ c1 @ asc '', '' @ t2 @ asc ''.'' @ c2]"
  by (simp add: create_bubble_chart_def Let_def assms snd_bind fst_bind split: sum.splits)

lemma multi_line_queries:
  assumes "split_on 0x2E v1 = [t1, c1]" "split_on 0x2E v2 = [t2, c2]" "split_on 0x2E v3 = [t3, c3]"
  shows "queries (snd (create_multi_line_chart e v1 v2 (Some v3) l1 l2 l3)) =
    [asc ''SELECT '' @ t1 @ asc ''.'' @ c1 @ asc '', '' @ t2 @ asc ''.'' @ c2 @ asc '', '' @ agg_val_of t3 c3
           @ asc '' AS Value'' @ asc '' '' @ asc ''FROM ACCIDENT'' @ asc '' ''
           @ join_clause_of {asc ''ACCIDENT'', t1, t2, t3}
           @ asc '' '' @ asc ''GROUP BY '' @ t1 @ asc ''.'' @ c1 @ asc '', '' @ t2 @ asc ''.'' @ c2
           @ asc '' '' @ asc ''ORDER BY '' @ t1 @ asc ''.'' @ c1]"
  by (simp add: create_multi_line_chart_def Let_def assms split_var_def snd_bind fst_bind split: sum.splits)

section \<open>The query of each routine\<close>

lemma field_ok_split: "field_ok v \<Longrightarrow> split_on 0x2E v = [owning_table v, column_of v]"
  by (simp add: field_ok_def)

lemma field_ok_join [simp]: "field_ok v \<Longrightarrow> owning_table v @ 46 # column_of v @ r = v @ r"
  by (metis field_ok_def append_Cons append_Nil append_assoc)

lemma field_ok_join0 [simp]: "field_ok v \<Longrightarrow> owning_table v @ 46 # column_of v = v"
  using field_ok_join[of v "[]"] by simp

lemma asc_eq_iff [simp]: "asc a = asc b \<longleftrightarrow> a = b"
  unfolding asc_def by (rule inj_map_eq_map) (simp add: inj_on_def)

lemma join2: "join_clause_of {asc ''ACCIDENT'', owning_table a, owning_table b} = expected_joins [a, b]"
  by (auto simp: join_clause_of_eq expected_joins_def)

lemma join3:
  "join_clause_of {asc ''ACCIDENT'', owning_table a, owning_table b, asc ''ACCIDENT''} = expected_joins [a, b, ACCIDENT_COUNT_ID]"
  by (auto simp: join_clause_of_eq expected_joins_def count_id_split(2))

lemma join2_count: "expected_joins [a, b] = expected_joins [a, b, ACCIDENT_COUNT_ID]"
  by (auto simp: expected_joins_def count_id_split(2))

lemma bar_spec:
  assumes "field_ok v1" "field_ok v2" "numeric_ok v2"
  shows "queries (snd (create_bar_chart e v1 v2 l1 l2)) =
           [spec_query \<lparr>plan_kind = Bar, plan_dims = [v1], plan_measure = v2\<rparr>]"
proof (cases "v2 = ACCIDENT_COUNT_ID")
  case True
  with assms(3) have c: "column_of v2 = ACCIDENT_COUNT_COL" by (simp add: numeric_ok_def)
  show ?thesis
    unfolding bar_queries[OF field_ok_split[OF assms(1)] field_ok_split[OF assms(2)]] c
    using assms(1) True
    by (simp add: spec_query_def expected_aggregate_def value_alias_def order_clause_def join2) (simp add: asc_def)
next
  case False
  with assms(3) have c: "column_of v2 \<noteq> ACCIDENT_COUNT_COL" "agg_func_of v2 = asc ''SUM''"
    "replace_del 0x29 (replace_del 0x28 (column_of v2)) = column_of v2"
    by (simp_all add: numeric_ok_def agg_func_of_def)
  show ?thesis
    unfolding bar_queries[OF field_ok_split[OF assms(1)] field_ok_split[OF assms(2)]]
    using assms(1,2) False c
    by (simp add: spec_query_def expected_aggregate_def value_alias_def order_clause_def join2) (simp add: asc_def)
qed

lemma line_spec:
  assumes "field_ok v1" "field_ok v2" "numeric_ok v2"
  shows "queries (snd (create_line_chart e v1 v2 l1 l2)) =
           [spec_query \<lparr>plan_kind = Line, plan_dims = [v1], plan_measure = v2\<rparr>]"
proof (cases "v2 = ACCIDENT_COUNT_ID")
  case True
  with assms(3) have c: "column_of v2 = ACCIDENT_COUNT_COL" by (simp add: numeric_ok_def)
  show ?thesis
    unfolding line_queries[OF field_ok_split[OF assms(1)] field_ok_split[OF assms(2)]] c
    using assms(1) True
    by (simp add: spec_query_def expected_aggregate_def value_alias_def order_clause_def join2) (simp add: asc_def)
next
  case False
  with assms(3) have c: "column_of v2 \<noteq> ACCIDENT_COUNT_COL" "agg_func_of v2 = asc ''SUM''"
    "replace_del 0x29 (replace_del 0x28 (column_of v2)) = column_of v2"
    by (simp_all add: numeric_ok_def agg_func_of_def)
  show ?thesis
    unfolding line_queries[OF field_ok_split[OF assms(1)] field_ok_split[OF assms(2)]]
    using assms(1,2) False c
    by (simp add: spec_query_def expected_aggregate_def value_alias_def order_clause_def join2) (simp add: asc_def)
qed

lemma agg_val_count: "agg_val_of (asc ''ACCIDENT'') ACCIDENT_COUNT_COL = expected_aggregate ACCIDENT_COUNT_ID"
  by (simp add: agg_val_of_def expected_aggregate_def)

lemma grouped_spec:
  assumes "field_ok v1" "field_ok v2"
  shows "queries (snd (create_grouped_bar_chart e v1 v2 (Some ACCIDENT_COUNT_ID) l1 l2 l3)) =
           [spec_query \<lparr>plan_kind = GroupedBar, plan_dims = [v1, v2], plan_measure = ACCIDENT_COUNT_ID\<rparr>]"
  unfolding grouped_queries[OF field_ok_split[OF assms(1)] field_ok_split[OF assms(2)] count_id_split(1)]
    agg_val_count join3
  using assms
  by (simp add: spec_query_def value_alias_def order_clause_def) (simp add: asc_def)

lemma bubble_spec:
  assumes "field_ok v1" "field_ok v2"
  shows "queries (snd (create_bubble_chart e v1 v2 l1 l2)) =
           [spec_query \<lparr>plan_kind = Bubble, plan_dims = [v1, v2], plan_measure = ACCIDENT_COUNT_ID\<rparr>]"
  unfolding bubble_queries[OF field_ok_split[OF assms(1)] field_ok_split[OF assms(2)]] join2 join2_count
  using assms
  by (simp add: spec_query_def value_alias_def order_clause_def expected_aggregate_def) (simp add: asc_def)

lemma multi_line_spec:
  assumes "field_ok v1" "field_ok v2"
  shows "queries (snd (create_multi_line_chart e v1 v2 (Some ACCIDENT_COUNT_ID) l1 l2 l3)) =
           [spec_query \<lparr>plan_kind = MultiLine, plan_dims = [v1, v2], plan_measure = ACCIDENT_COUNT_ID\<rparr>]"
  unfolding multi_line_queries[OF field_ok_split[OF assms(1)] field_ok_split[OF assms(2)] count_id_split(1)]
    agg_val_count join3
  using assms
  by (simp add: spec_query_def value_alias_def order_clause_def) (simp add: asc_def)

lemma generate_queries_dispatch:
  assumes "get_internal_name l1 = Some v1" and "get_internal_name l2 = Some v2"
  shows "queries (snd (generate_visualization e l1 l2)) =
           queries (snd (dispatch e v1 v2 l1 l2 (get_column_type v1) (get_column_type v2)))"
  by (simp add: generate_resolved[OF assms] snd_bind snd_try_except start_record_def split: sum.splits)

lemma generate_queries_spec:
  "queries (snd (generate_visualization e l1 l2)) =
     (case spec_dispatch l1 l2 of None \<Rightarrow> [] | Some p \<Rightarrow> [spec_query p])"
proof (cases "get_internal_name l1 = None \<or> get_internal_name l2 = None")
  case True
  then show ?thesis
    using generate_unresolved[of l1 l2 e] by (auto simp: spec_dispatch_def split: option.splits)
next
  case False
  then obtain v1 v2 where v: "get_internal_name l1 = Some v1" "get_internal_name l2 = Some v2"
    by auto
  note f = resolved_field(1)[OF v(1)] resolved_field(1)[OF v(2)]
  note n = resolved_field(2)[OF v(1)] resolved_field(2)[OF v(2)]
  have sd: "spec_dispatch l1 l2 = spec_dispatch_fields l1 l2 v1 v2"
    by (simp add: spec_dispatch_def v)
  show ?thesis
    unfolding generate_queries_dispatch[OF v] sd dispatch_def Let_def count_id
    using f n
    by (simp add: spec_dispatch_fields_def Let_def
        bar_spec line_spec grouped_spec bubble_spec multi_line_spec)
qed

section \<open>Keywords in the query text\<close>

lemma no_pair_Cons: "no_pair a b (x # xs) \<Longrightarrow> no_pair a b xs"
  by (cases xs) auto

lemma no_pair_append:
  "no_pair a b xs \<Longrightarrow> no_pair a b ys \<Longrightarrow> no_pair a b (xs @ ys)"
proof (induction a b xs rule: no_pair.induct)
  case (1 a b)
  then show ?case by simp
next
  case (2 a b x)
  then show ?case by (cases ys) auto
next
  case (3 a b x y zs)
  then show ?case by auto
qed

lemma no_pair_mid: "\<not> no_pair a b (u @ a # b # w)"
proof (induction u)
  case Nil
  then show ?case by simp
next
  case (Cons x u)
  then show ?case using no_pair_Cons[of a b x "u @ a # b # w"] by auto
qed

lemma no_pair_not_sublist: "no_pair a b s \<Longrightarrow> \<not> sublist (p @ a # b # r) s"
proof
  assume n: "no_pair a b s" and "sublist (p @ a # b # r) s"
  then obtain ps ss where "s = ps @ (p @ a # b # r) @ ss" by (auto simp: sublist_def)
  then have "s = (ps @ p) @ a # b # (r @ ss)" by simp
  with n no_pair_mid[of a b "ps @ p" "r @ ss"] show False by simp
qed

lemma no_LIMIT: "no_pair 76 73 s \<Longrightarrow> \<not> sublist (asc ''LIMIT'') s"
  using no_pair_not_sublist[of 76 73 s "[]" "[77, 73, 84]"] by (simp add: asc_def)
lemma no_JOIN: "no_pair 74 79 s \<Longrightarrow> \<not> sublist (asc ''JOIN'') s"
  using no_pair_not_sublist[of 74 79 s "[]" "[73, 78]"] by (simp add: asc_def)
lemma no_FROM: "no_pair 70 82 s \<Longrightarrow> \<not> sublist (asc ''FROM'') s"
  using no_pair_not_sublist[of 70 82 s "[]" "[79, 77]"] by (simp add: asc_def)


lemma clean_append: "clean xs \<Longrightarrow> clean ys \<Longrightarrow> clean (xs @ ys)"
  by (simp add: clean_def no_pair_append)

lemma field_ok_clean: "field_ok v \<Longrightarrow> clean v"
  by (simp add: field_ok_def clean_def)

lemma clean_literals:
  "clean (asc ''SELECT '')" "clean (asc '', '')" "clean (asc '' AS '')" "clean (asc ''Value'')"
  "clean (asc ''BubbleSize'')" "clean (asc ''COUNT(ACCIDENT.AccidentID)'')" "clean (asc ''SUM('')"
  "clean (asc '')'')" "clean (asc '' GROUP BY '')" "clean (asc '' ORDER BY '')" "clean (asc '' '')"
  "clean []"
  by (simp_all add: clean_def asc_def)

lemma clean_comma_join: "list_all clean dims \<Longrightarrow> clean (comma_join dims)"
  by (induction dims rule: comma_join.induct) (auto intro!: clean_append clean_literals)

lemma clean_aggregate: "clean m \<Longrightarrow> clean (expected_aggregate m)"
  by (auto simp: expected_aggregate_def intro!: clean_append clean_literals)

lemma clean_alias: "clean (value_alias k)"
  by (simp add: value_alias_def clean_literals)

lemma clean_select:
  "list_all clean dims \<Longrightarrow> clean m \<Longrightarrow>
   clean (asc ''SELECT '' @ comma_join dims @ asc '', '' @ expected_aggregate m @ asc '' AS '' @ value_alias k)"
  by (intro clean_append clean_literals clean_comma_join clean_aggregate clean_alias)

lemma order_clause_no_JOIN_FROM:
  "dims \<noteq> [] \<Longrightarrow> list_all clean dims \<Longrightarrow>
   no_pair 74 79 (order_clause k dims) \<and> no_pair 70 82 (order_clause k dims)"
  by (cases k; cases dims)
     (auto simp: order_clause_def clean_def intro!: no_pair_append, simp_all add: asc_def)

lemma order_clause_no_LIMIT:
  "dims \<noteq> [] \<Longrightarrow> list_all clean dims \<Longrightarrow> k \<noteq> Bar \<Longrightarrow> no_pair 76 73 (order_clause k dims)"
  by (cases k; cases dims)
     (auto simp: order_clause_def clean_def intro!: no_pair_append, simp_all add: asc_def)

lemma joins_no_LIMIT: "no_pair 76 73 (expected_joins fs)"
  by (auto simp: expected_joins_def DRIVER_JOIN_def REGION_JOIN_def asc_def)

lemma from_no_LIMIT: "no_pair 76 73 (asc '' FROM ACCIDENT '')"
  by (simp add: asc_def)


lemma snd_unpack2 [simp]: "snd (unpack2 xs) = []"
  by (simp add: unpack2_def split: list.splits)

lemma snd_index1 [simp]: "snd (index1 xs) = []"
  by (simp add: index1_def split: list.splits)

lemma snd_build [simp]: "snd (build_query_components a b c) = []"
  by (simp add: build_query_components_def snd_bind Let_def split: sum.splits prod.splits)

lemma fst_px: "fst (px e args) = (case px_raises e args of Some ex \<Rightarrow> Inl ex | None \<Rightarrow> Inr args)"
  by (simp add: px_def split: option.splits)

lemma bar_suffix:
  "q \<in> set (queries (snd (create_bar_chart e cv nv cl nl))) \<Longrightarrow>
     suffix (asc '' ORDER BY Value DESC LIMIT 20'') q"
  by (auto simp: create_bar_chart_def Let_def snd_bind fst_bind suffix_def
      split: sum.splits prod.splits)

lemma bar_result:
  assumes "fst (create_bar_chart e cv nv cl nl) = Inr (Some fig, t)"
  shows "\<exists>q. queries (snd (create_bar_chart e cv nv cl nl)) = [q] \<and> read_sql e q = Inr (fig_data fig)"
  using assms
  by (auto simp: create_bar_chart_def Let_def snd_bind fst_bind fst_px px_args_def
      split: sum.splits prod.splits option.splits)

lemma count_id_field_ok: "field_ok ACCIDENT_COUNT_ID"
  using resolved_field(1)[OF count_id] .

lemma spec_dispatch_plan:
  assumes "spec_dispatch l1 l2 = Some p"
  shows "plan_dims p \<noteq> [] \<and> list_all field_ok (plan_dims p) \<and> field_ok (plan_measure p)"
proof -
  from assms obtain v1 v2 where v: "get_internal_name l1 = Some v1" "get_internal_name l2 = Some v2"
    and p: "spec_dispatch_fields l1 l2 v1 v2 = Some p"
    by (auto simp: spec_dispatch_def split: option.splits)
  note f = resolved_field(1)[OF v(1)] resolved_field(1)[OF v(2)] count_id_field_ok
  from p f show ?thesis
    by (auto simp: spec_dispatch_fields_def Let_def split: if_splits)
qed

lemma spec_query_split:
  "spec_query p =
     (asc ''SELECT '' @ comma_join (plan_dims p) @ asc '', '' @ expected_aggregate (plan_measure p)
        @ asc '' AS '' @ value_alias (plan_kind p))
     @ asc '' FROM ACCIDENT '' @ expected_joins (plan_dims p @ [plan_measure p]) @ asc '' ''
     @ (asc ''GROUP BY '' @ comma_join (plan_dims p) @ order_clause (plan_kind p) (plan_dims p))"
proof -
  have "asc '' GROUP BY '' = asc '' '' @ asc ''GROUP BY ''" by (simp add: asc_def)
  then show ?thesis by (simp add: spec_query_def)
qed

lemma clean_group_by: "clean (asc ''GROUP BY '')"
  by (simp add: clean_def asc_def)

lemma spec_query_LIMIT:
  assumes "spec_dispatch l1 l2 = Some p"
  shows "sublist (asc ''LIMIT'') (spec_query p) \<longleftrightarrow> plan_kind p = Bar"
proof (cases "plan_kind p = Bar")
  case True
  have "suffix (asc ''LIMIT 20'') (spec_query p)"
    using True by (simp add: spec_query_def order_clause_def suffix_def asc_def)
  then have "sublist (asc ''LIMIT 20'') (spec_query p)" by (rule suffix_imp_sublist)
  moreover have "sublist (asc ''LIMIT'') (asc ''LIMIT 20'')"
    by (simp add: asc_def sublist_Cons_right)
  ultimately show ?thesis using True sublist_order.order_trans by blast
next
  case False
  note ok = spec_dispatch_plan[OF assms]
  then have c: "list_all clean (plan_dims p)" "clean (plan_measure p)"
    by (auto simp: list_all_iff field_ok_clean)
  have s: "no_pair 76 73 (asc ''SELECT '' @ comma_join (plan_dims p) @ asc '', ''
              @ expected_aggregate (plan_measure p) @ asc '' AS '' @ value_alias (plan_kind p))"
    using clean_select[OF c] by (simp add: clean_def)
  have g: "no_pair 76 73 (asc ''GROUP BY '' @ comma_join (plan_dims p) @ order_clause (plan_kind p) (plan_dims p))"
    using clean_group_by clean_comma_join[OF c(1)] order_clause_no_LIMIT[OF _ c(1) False] ok
    by (intro no_pair_append) (simp_all add: clean_def)
  have sp: "no_pair 76 73 (asc '' '')" by (simp add: asc_def)
  have "no_pair 76 73 (spec_query p)"
    unfolding spec_query_split
    by (intro no_pair_append s from_no_LIMIT joins_no_LIMIT sp g)
  then show ?thesis using False no_LIMIT by blast
qed

lemma joins_no_JOIN_outside:
  assumes "spec_dispatch l1 l2 = Some p"
  shows "clean (asc ''SELECT '' @ comma_join (plan_dims p) @ asc '', ''
              @ expected_aggregate (plan_measure p) @ asc '' AS '' @ value_alias (plan_kind p))"
    and "no_pair 74 79 (asc ''GROUP BY '' @ comma_join (plan_dims p) @ order_clause (plan_kind p) (plan_dims p))"
    and "no_pair 70 82 (asc ''GROUP BY '' @ comma_join (plan_dims p) @ order_clause (plan_kind p) (plan_dims p))"
proof -
  note ok = spec_dispatch_plan[OF assms]
  then have c: "list_all clean (plan_dims p)" "clean (plan_measure p)"
    by (auto simp: list_all_iff field_ok_clean)
  show "clean (asc ''SELECT '' @ comma_join (plan_dims p) @ asc '', ''
              @ expected_aggregate (plan_measure p) @ asc '' AS '' @ value_alias (plan_kind p))"
    by (rule clean_select[OF c])
  show "no_pair 74 79 (asc ''GROUP BY '' @ comma_join (plan_dims p) @ order_clause (plan_kind p) (plan_dims p))"
    using clean_group_by clean_comma_join[OF c(1)] order_clause_no_JOIN_FROM[OF _ c(1)] ok
    by (intro no_pair_append) (simp_all add: clean_def)
  show "no_pair 70 82 (asc ''GROUP BY '' @ comma_join (plan_dims p) @ order_clause (plan_kind p) (plan_dims p))"
    using clean_group_by clean_comma_join[OF c(1)] order_clause_no_JOIN_FROM[OF _ c(1)] ok
    by (intro no_pair_append) (simp_all add: clean_def)
qed

lemma join_texts:
  "\<not> sublist DRIVER_JOIN REGION_JOIN" "\<not> sublist REGION_JOIN DRIVER_JOIN"
  "DRIVER_JOIN \<noteq> []" "REGION_JOIN \<noteq> []"
  by code_simp+

lemma expected_joins_iff:
  "(sublist DRIVER_JOIN (expected_joins fs) \<longleftrightarrow> asc ''DRIVER'' \<in> owning_table ` set fs)
   \<and> (sublist REGION_JOIN (expected_joins fs) \<longleftrightarrow> asc ''REGION'' \<in> owning_table ` set fs)"
  using join_texts by (auto simp: expected_joins_def)

lemma expected_joins_primary:
  "\<forall>f \<in> set fs. owning_table f = asc ''ACCIDENT'' \<Longrightarrow> expected_joins fs = []"
  by (auto simp: expected_joins_def)

section \<open>Aggregates, and runs that end in the dispatcher\<close>

lemma expected_aggregate_iff:
  "expected_aggregate m = asc ''COUNT(ACCIDENT.AccidentID)'' \<longleftrightarrow> m = ACCIDENT_COUNT_ID"
  by (simp add: expected_aggregate_def) (simp add: asc_def)

lemma field_ok_dot: "field_ok v \<Longrightarrow> owning_table v @ asc ''.'' @ column_of v = v"
  using field_ok_join0[of v] by (simp add: asc_def)

lemma numeric_agg_val:
  assumes "numeric_ok v" "field_ok v"
  shows "agg_val_of (owning_table v) (column_of v) = expected_aggregate v"
proof (cases "v = ACCIDENT_COUNT_ID")
  case True
  with assms(1) have "column_of v = ACCIDENT_COUNT_COL" by (simp add: numeric_ok_def)
  with True show ?thesis by (simp add: agg_val_of_def expected_aggregate_def)
next
  case False
  with assms(1) have "column_of v \<noteq> ACCIDENT_COUNT_COL" by (simp add: numeric_ok_def)
  with False show ?thesis
    by (simp add: agg_val_of_def expected_aggregate_def field_ok_dot[OF assms(2)])
qed

lemma numeric_build:
  assumes "numeric_ok v" "field_ok v" "split_on 0x2E dim = [t1, c1]"
  shows "\<exists>frm jn grp odr. fst (build_query_components dim v (Some (agg_func_of v))) =
           Inr (asc ''SELECT '' @ t1 @ asc ''.'' @ c1 @ asc '', '' @ expected_aggregate v @ asc '' AS Value'',
                frm, jn, grp, odr)"
proof (cases "v = ACCIDENT_COUNT_ID")
  case True
  with assms(1) have c: "column_of v = ACCIDENT_COUNT_COL" by (simp add: numeric_ok_def)
  show ?thesis
    unfolding build_ok[OF assms(3) field_ok_split[OF assms(2)] agg_func_of_nonempty] c
    using True by (simp add: expected_aggregate_def)
next
  case False
  with assms(1) have c: "column_of v \<noteq> ACCIDENT_COUNT_COL" "agg_func_of v = asc ''SUM''"
    "replace_del 0x29 (replace_del 0x28 (column_of v)) = column_of v"
    by (simp_all add: numeric_ok_def agg_func_of_def)
  show ?thesis
    unfolding build_ok[OF assms(3) field_ok_split[OF assms(2)] agg_func_of_nonempty]
    using False c assms(2) by (simp add: expected_aggregate_def) (simp add: asc_def)
qed

lemma generate_run:
  assumes "get_internal_name l1 = Some v1" and "get_internal_name l2 = Some v2"
    and "dispatch e v1 v2 l1 l2 (get_column_type v1) (get_column_type v2) = ret r"
  shows "generate_visualization e l1 l2 =
           (Inr r, [start_record l1 (get_column_type v1) l2 (get_column_type v2)])"
  by (simp add: generate_resolved[OF assms(1,2)] assms(3) try_except_def ret_def bind_def emit_def)

section \<open>The claims\<close>

text \<open>
  C1. When at least one of the two labels is not a display label of the catalog,
  \<open>generate_visualization\<close> returns the failure result \<open>(None, 'the selected field name was
  not found')\<close>, and no query is handed to the engine.
\<close>

theorem C1_unknown_label_fails_without_query:
  "l1 \<notin> catalog_labels \<or> l2 \<notin> catalog_labels \<Longrightarrow>
     fst (generate_visualization e l1 l2) = Inr (None, MSG_NOT_FOUND)
     \<and> queries (snd (generate_visualization e l1 l2)) = []"
  using generate_unresolved[of l1 l2 e] by (auto simp: get_internal_name_None_iff)

theorem C1_witness:
  "asc ''unknown label'' \<notin> catalog_labels
   \<and> fst (generate_visualization (env_up []) (asc ''unknown label'') ACCIDENT_COUNT) = Inr (None, MSG_NOT_FOUND)
   \<and> queries (snd (generate_visualization (env_up []) (asc ''unknown label'') ACCIDENT_COUNT)) = []"
proof -
  have h: "asc ''unknown label'' \<notin> catalog_labels"
    by code_simp
  from C1_unknown_label_fails_without_query[OF disjI1[OF h]] h show ?thesis
    by blast
qed

text \<open>
  C2. \<open>generate_visualization\<close> always returns a result and never raises. Whenever the body
  of its \<open>try\<close> block (query construction, query execution, chart construction) raises an
  exception, the result is the failure result whose message is the fixed prefix followed
  by the text of the exception, and the error is logged.
\<close>

theorem C2_exceptions_become_failure_results:
  "(\<exists>r. fst (generate_visualization e l1 l2) = Inr r) \<and>
   (\<forall>v1 v2 ex. get_internal_name l1 = Some v1 \<and> get_internal_name l2 = Some v2 \<and>
       fst (dispatch e v1 v2 l1 l2 (get_column_type v1) (get_column_type v2)) = Inl ex \<longrightarrow>
       fst (generate_visualization e l1 l2) = Inr (None, MSG_ERROR_PREFIX @ str_exn ex) \<and>
       LogError (LOG_ERROR_PREFIX @ str_exn ex) \<in> set (snd (generate_visualization e l1 l2)))"
proof (cases "get_internal_name l1 = None \<or> get_internal_name l2 = None")
  case True
  then show ?thesis using generate_unresolved[of l1 l2 e] by auto
next
  case False
  then obtain v1 v2 where v: "get_internal_name l1 = Some v1" "get_internal_name l2 = Some v2"
    by auto
  show ?thesis
    by (auto simp: generate_resolved[OF v] v fst_bind snd_bind fst_try_except snd_try_except
        split: sum.splits)
qed

text \<open>
  C3. When both labels resolve to numeric fields: if one of them is the accident-count
  label, \<open>generate_visualization\<close> returns the failure result \<open>(None, 'this visualisation
  does not support accident count')\<close> having done nothing but log the start of the request
  (no query, no chart); otherwise it runs the bubble-chart routine on the two fields, in
  the order given, inside its \<open>try\<close> block.
\<close>

theorem C3_numeric_pair_bubble_or_refusal:
  assumes "get_internal_name l1 = Some v1" and "get_internal_name l2 = Some v2"
    and "get_column_type v1 = TYPE_NUMERIC" and "get_column_type v2 = TYPE_NUMERIC"
  shows "(l1 = ACCIDENT_COUNT \<or> l2 = ACCIDENT_COUNT \<longrightarrow>
            generate_visualization e l1 l2 =
              (Inr (None, MSG_NO_ACCIDENT_COUNT), [start_record l1 TYPE_NUMERIC l2 TYPE_NUMERIC]))
       \<and> (l1 \<noteq> ACCIDENT_COUNT \<and> l2 \<noteq> ACCIDENT_COUNT \<longrightarrow>
            generate_visualization e l1 l2 =
              bind (emit (start_record l1 TYPE_NUMERIC l2 TYPE_NUMERIC)) (\<lambda>_.
                try_except (create_bubble_chart e v1 v2 l1 l2) except_block))"
proof (intro conjI impI)
  assume a: "l1 = ACCIDENT_COUNT \<or> l2 = ACCIDENT_COUNT"
  have "dispatch e v1 v2 l1 l2 (get_column_type v1) (get_column_type v2) = ret (None, MSG_NO_ACCIDENT_COUNT)"
    unfolding assms(3,4) dispatch_def using a by auto
  from generate_run[OF assms(1,2) this]
  show "generate_visualization e l1 l2 =
          (Inr (None, MSG_NO_ACCIDENT_COUNT), [start_record l1 TYPE_NUMERIC l2 TYPE_NUMERIC])"
    by (simp add: assms(3,4))
next
  assume a: "l1 \<noteq> ACCIDENT_COUNT \<and> l2 \<noteq> ACCIDENT_COUNT"
  have "dispatch e v1 v2 l1 l2 (get_column_type v1) (get_column_type v2) = create_bubble_chart e v1 v2 l1 l2"
    unfolding assms(3,4) dispatch_def using a by auto
  then show "generate_visualization e l1 l2 =
              bind (emit (start_record l1 TYPE_NUMERIC l2 TYPE_NUMERIC)) (\<lambda>_.
                try_except (create_bubble_chart e v1 v2 l1 l2) except_block)"
    by (simp add: generate_resolved[OF assms(1,2)] assms(3,4))
qed

text \<open>
  C4. Every query of the bar-chart routine ends with \<open>ORDER BY Value DESC LIMIT 20\<close>. Among
  the queries that \<open>generate_visualization\<close> issues, the keyword \<open>LIMIT\<close> occurs exactly in
  those of the bar chart (the categorical-numeric pairs, in either order): the other four
  routines put no cap. The frame the bar chart draws is the frame the engine returned for
  that query, so whatever the engine guarantees for the answer to a query ending with
  \<open>ORDER BY Value DESC LIMIT 20\<close> (at most twenty rows, sorted by value descending) holds
  for the data of the chart.
\<close>

theorem C4_only_bar_chart_is_capped:
  "(\<forall>q \<in> set (queries (snd (create_bar_chart e cat_var num_var cat_label num_label))).
       suffix (asc '' ORDER BY Value DESC LIMIT 20'') q)
   \<and> (\<forall>q \<in> set (queries (snd (generate_visualization e l1 l2))).
       sublist (asc ''LIMIT'') q \<longleftrightarrow> map_option plan_kind (spec_dispatch l1 l2) = Some Bar)
   \<and> (\<forall>P fig t.
        (\<forall>q df. suffix (asc '' ORDER BY Value DESC LIMIT 20'') q \<and> read_sql e q = Inr df \<longrightarrow> P df)
        \<and> fst (create_bar_chart e cat_var num_var cat_label num_label) = Inr (Some fig, t)
        \<longrightarrow> P (fig_data fig))"
proof (intro conjI ballI allI impI)
  fix q assume "q \<in> set (queries (snd (create_bar_chart e cat_var num_var cat_label num_label)))"
  then show "suffix (asc '' ORDER BY Value DESC LIMIT 20'') q" by (rule bar_suffix)
next
  fix q assume "q \<in> set (queries (snd (generate_visualization e l1 l2)))"
  then obtain p where p: "spec_dispatch l1 l2 = Some p" and q: "q = spec_query p"
    by (cases "spec_dispatch l1 l2") (auto simp: generate_queries_spec)
  show "sublist (asc ''LIMIT'') q \<longleftrightarrow> map_option plan_kind (spec_dispatch l1 l2) = Some Bar"
    using spec_query_LIMIT[OF p] by (simp add: p q)
next
  fix P fig t
  assume a: "(\<forall>q df. suffix (asc '' ORDER BY Value DESC LIMIT 20'') q \<and> read_sql e q = Inr df \<longrightarrow> P df)
        \<and> fst (create_bar_chart e cat_var num_var cat_label num_label) = Inr (Some fig, t)"
  then obtain q where q: "queries (snd (create_bar_chart e cat_var num_var cat_label num_label)) = [q]"
      "read_sql e q = Inr (fig_data fig)"
    using bar_result by blast
  then have "suffix (asc '' ORDER BY Value DESC LIMIT 20'') q"
    using bar_suffix[of q e cat_var num_var cat_label num_label] by simp
  with a q show "P (fig_data fig)" by blast
qed

text \<open>
  C5. Every query that \<open>generate_visualization\<close> issues reads \<open>FROM ACCIDENT\<close>, followed by
  exactly the joins of the secondary tables that own one of the involved fields (the
  dimension fields and the aggregated field), \<open>DRIVER\<close> before \<open>REGION\<close>; no other \<open>FROM\<close> or
  \<open>JOIN\<close> occurs before or after. The join text holds the \<open>DRIVER\<close> join if and only if
  \<open>DRIVER\<close> owns an involved field, likewise for \<open>REGION\<close>, and it is empty when every
  involved field belongs to \<open>ACCIDENT\<close>.
\<close>

theorem C5_joins_follow_owning_tables:
  "(\<forall>q \<in> set (queries (snd (generate_visualization e l1 l2))).
      \<exists>p sel rest. spec_dispatch l1 l2 = Some p
        \<and> q = sel @ asc '' FROM ACCIDENT '' @ expected_joins (plan_dims p @ [plan_measure p]) @ asc '' '' @ rest
        \<and> \<not> sublist (asc ''FROM'') sel \<and> \<not> sublist (asc ''JOIN'') sel
        \<and> \<not> sublist (asc ''FROM'') rest \<and> \<not> sublist (asc ''JOIN'') rest)
   \<and> (sublist DRIVER_JOIN (expected_joins involved) \<longleftrightarrow> asc ''DRIVER'' \<in> owning_table ` set involved)
   \<and> (sublist REGION_JOIN (expected_joins involved) \<longleftrightarrow> asc ''REGION'' \<in> owning_table ` set involved)
   \<and> ((\<forall>f \<in> set involved. owning_table f = asc ''ACCIDENT'') \<longrightarrow> expected_joins involved = [])"
proof (intro conjI ballI)
  fix q assume "q \<in> set (queries (snd (generate_visualization e l1 l2)))"
  then obtain p where p: "spec_dispatch l1 l2 = Some p" and q: "q = spec_query p"
    by (cases "spec_dispatch l1 l2") (auto simp: generate_queries_spec)
  note n = joins_no_JOIN_outside[OF p]
  show "\<exists>p sel rest. spec_dispatch l1 l2 = Some p
        \<and> q = sel @ asc '' FROM ACCIDENT '' @ expected_joins (plan_dims p @ [plan_measure p]) @ asc '' '' @ rest
        \<and> \<not> sublist (asc ''FROM'') sel \<and> \<not> sublist (asc ''JOIN'') sel
        \<and> \<not> sublist (asc ''FROM'') rest \<and> \<not> sublist (asc ''JOIN'') rest"
    apply (rule exI[of _ p])
    apply (rule exI[of _ "asc ''SELECT '' @ comma_join (plan_dims p) @ asc '', ''
              @ expected_aggregate (plan_measure p) @ asc '' AS '' @ value_alias (plan_kind p)"])
    apply (rule exI[of _ "asc ''GROUP BY '' @ comma_join (plan_dims p) @ order_clause (plan_kind p) (plan_dims p)"])
    using p q n spec_query_split[of p] no_FROM no_JOIN
    by (simp add: clean_def)
qed (use expected_joins_iff[of involved] expected_joins_primary[of involved] in blast)+

text \<open>
  C6. Every query that \<open>generate_visualization\<close> issues selects the dimension columns and
  then the aggregate of the aggregated field: \<open>COUNT(ACCIDENT.AccidentID)\<close> if and only if
  that field is the accident-count pseudo-field \<open>ACCIDENT.(accident count)\<close>, and
  \<open>SUM(table.column)\<close> of the field otherwise. The same holds inside the routines for every
  numeric field of the catalog: for the aggregate that \<open>build_query_components\<close> selects
  (bar and line charts) and for \<open>agg_val\<close> (grouped bar and multi-line charts).
\<close>

theorem C6_count_for_accident_count_sum_otherwise:
  "(\<forall>q \<in> set (queries (snd (generate_visualization e l1 l2))).
      \<exists>p rest. spec_dispatch l1 l2 = Some p
        \<and> q = asc ''SELECT '' @ comma_join (plan_dims p) @ asc '', ''
                @ expected_aggregate (plan_measure p) @ asc '' AS '' @ rest
        \<and> plan_measure p = owning_table (plan_measure p) @ asc ''.'' @ column_of (plan_measure p))
   \<and> (expected_aggregate m = asc ''COUNT(ACCIDENT.AccidentID)'' \<longleftrightarrow> m = ACCIDENT_COUNT_ID)
   \<and> (m \<noteq> ACCIDENT_COUNT_ID \<longrightarrow> expected_aggregate m = asc ''SUM('' @ m @ asc '')'')
   \<and> (get_internal_name l = Some v \<and> get_column_type v = TYPE_NUMERIC \<longrightarrow>
        agg_val_of (owning_table v) (column_of v) = expected_aggregate v
        \<and> (\<forall>dim t1 c1. split_on 0x2E dim = [t1, c1] \<longrightarrow>
             (\<exists>frm jn grp odr. fst (build_query_components dim v (Some (agg_func_of v))) =
                Inr (asc ''SELECT '' @ t1 @ asc ''.'' @ c1 @ asc '', '' @ expected_aggregate v @ asc '' AS Value'',
                     frm, jn, grp, odr))))"
proof (intro conjI ballI impI)
  fix q assume "q \<in> set (queries (snd (generate_visualization e l1 l2)))"
  then obtain p where p: "spec_dispatch l1 l2 = Some p" and q: "q = spec_query p"
    by (cases "spec_dispatch l1 l2") (auto simp: generate_queries_spec)
  from spec_dispatch_plan[OF p] have "field_ok (plan_measure p)" by simp
  then have "plan_measure p = owning_table (plan_measure p) @ asc ''.'' @ column_of (plan_measure p)"
    by (simp add: field_ok_def asc_def)
  with p q show "\<exists>p rest. spec_dispatch l1 l2 = Some p
        \<and> q = asc ''SELECT '' @ comma_join (plan_dims p) @ asc '', ''
                @ expected_aggregate (plan_measure p) @ asc '' AS '' @ rest
        \<and> plan_measure p = owning_table (plan_measure p) @ asc ''.'' @ column_of (plan_measure p)"
    unfolding spec_query_def by blast
next
  show "expected_aggregate m = asc ''COUNT(ACCIDENT.AccidentID)'' \<longleftrightarrow> m = ACCIDENT_COUNT_ID"
    by (rule expected_aggregate_iff)
next
  assume "m \<noteq> ACCIDENT_COUNT_ID"
  then show "expected_aggregate m = asc ''SUM('' @ m @ asc '')''" by (simp add: expected_aggregate_def)
next
  assume a: "get_internal_name l = Some v \<and> get_column_type v = TYPE_NUMERIC"
  then have n: "numeric_ok v" "field_ok v" using resolved_field by blast+
  show "agg_val_of (owning_table v) (column_of v) = expected_aggregate v"
    using numeric_agg_val[OF n] .
  show "\<forall>dim t1 c1. split_on 0x2E dim = [t1, c1] \<longrightarrow>
             (\<exists>frm jn grp odr. fst (build_query_components dim v (Some (agg_func_of v))) =
                Inr (asc ''SELECT '' @ t1 @ asc ''.'' @ c1 @ asc '', '' @ expected_aggregate v @ asc '' AS Value'',
                     frm, jn, grp, odr))"
    using numeric_build[OF n] by blast
qed

text \<open>
  C10. For two resolved labels whose pair of types is not in the dispatch table, and for
  two numeric labels one of which is the accident-count label, \<open>generate_visualization\<close>
  returns a failure result and hands no query to the engine.
\<close>

theorem C10_rejections_issue_no_query:
  assumes "get_internal_name l1 = Some v1" and "get_internal_name l2 = Some v2"
  shows "(\<not> handled (get_column_type v1) (get_column_type v2) \<longrightarrow>
            fst (generate_visualization e l1 l2) = Inr (None, MSG_NO_COMBINATION)
            \<and> queries (snd (generate_visualization e l1 l2)) = [])
       \<and> (get_column_type v1 = TYPE_NUMERIC \<and> get_column_type v2 = TYPE_NUMERIC
            \<and> (l1 = ACCIDENT_COUNT \<or> l2 = ACCIDENT_COUNT) \<longrightarrow>
            fst (generate_visualization e l1 l2) = Inr (None, MSG_NO_ACCIDENT_COUNT)
            \<and> queries (snd (generate_visualization e l1 l2)) = [])"
proof (intro conjI impI)
  assume a: "\<not> handled (get_column_type v1) (get_column_type v2)"
  have "dispatch e v1 v2 l1 l2 (get_column_type v1) (get_column_type v2) = ret (None, MSG_NO_COMBINATION)"
    using a unfolding dispatch_def handled_def by auto
  from generate_run[OF assms this]
  show "fst (generate_visualization e l1 l2) = Inr (None, MSG_NO_COMBINATION)"
    and "queries (snd (generate_visualization e l1 l2)) = []"
    by (simp_all add: start_record_def)
next
  assume a: "get_column_type v1 = TYPE_NUMERIC \<and> get_column_type v2 = TYPE_NUMERIC
            \<and> (l1 = ACCIDENT_COUNT \<or> l2 = ACCIDENT_COUNT)"
  have "dispatch e v1 v2 l1 l2 (get_column_type v1) (get_column_type v2) = ret (None, MSG_NO_ACCIDENT_COUNT)"
    using a unfolding dispatch_def by auto
  from generate_run[OF assms this]
  show "fst (generate_visualization e l1 l2) = Inr (None, MSG_NO_ACCIDENT_COUNT)"
    and "queries (snd (generate_visualization e l1 l2)) = []"
    by (simp_all add: start_record_def)
qed

end
